theory Spec2Isabelle
  imports Complex_Main
begin

section \<open>Python values\<close>

text \<open>
  The program is \<^verbatim>\<open>src/main.py\<close>: four resolvers that compute one metric from
  data fetched with yfinance, four comparators that rank tickers by a metric, and the
  loop of \<^verbatim>\<open>receive_prompt\<close> that walks the parsed request and writes the
  results into it.

  A Python float is a finite number, one of the two infinities, or NaN. Finite floats
  are taken as exact reals: rounding error and overflow of the binary format are left
  out, the special values are kept, since the code produces them (numpy divides by zero
  without raising, and the standard deviation of fewer than two values is NaN).
\<close>

datatype pyfloat = Fin real | PInf | NInf | NaN

text \<open>The quotient \<^verbatim>\<open>a / b\<close> of two finite numpy floats.\<close>

definition fdiv :: "real \<Rightarrow> real \<Rightarrow> pyfloat" where
  "fdiv a b =
     (if b \<noteq> 0 then Fin (a / b)
      else if 0 < a then PInf
      else if a < 0 then NInf
      else NaN)"

text \<open>The product \<^verbatim>\<open>x * c\<close> with a finite constant \<open>c > 0\<close>, and \<^verbatim>\<open>x - 1\<close>.\<close>

fun fscale :: "real \<Rightarrow> pyfloat \<Rightarrow> pyfloat" where
  "fscale c (Fin x) = Fin (x * c)"
| "fscale c PInf = PInf"
| "fscale c NInf = NInf"
| "fscale c NaN = NaN"

fun fminus1 :: "pyfloat \<Rightarrow> pyfloat" where
  "fminus1 (Fin x) = Fin (x - 1)"
| "fminus1 PInf = PInf"
| "fminus1 NInf = NInf"
| "fminus1 NaN = NaN"

text \<open>
  \<^verbatim>\<open>a < b\<close> and \<^verbatim>\<open>a > b\<close> on floats: every comparison with NaN is false.
\<close>

fun flt :: "pyfloat \<Rightarrow> pyfloat \<Rightarrow> bool" where
  "flt NaN b = False"
| "flt a NaN = False"
| "flt (Fin a) (Fin b) = (a < b)"
| "flt (Fin a) PInf = True"
| "flt (Fin a) NInf = False"
| "flt PInf b = False"
| "flt NInf (Fin b) = True"
| "flt NInf PInf = True"
| "flt NInf NInf = False"

definition fgt :: "pyfloat \<Rightarrow> pyfloat \<Rightarrow> bool" where
  "fgt a b = flt b a"

text \<open>
  \<^verbatim>\<open>round(x, 2)\<close>: the value is scaled by 100, rounded to the nearest integer with
  ties going to the even one, and scaled back. Infinities and NaN pass through.
\<close>

definition round_half_even :: "real \<Rightarrow> int" where
  "round_half_even x =
     (let f = \<lfloor>x\<rfloor>; d = x - of_int f
      in if d < 1 / 2 then f
         else if 1 / 2 < d then f + 1
         else if even f then f else f + 1)"

definition round2 :: "real \<Rightarrow> real" where
  "round2 x = of_int (round_half_even (x * 100)) / 100"

fun fround2 :: "pyfloat \<Rightarrow> pyfloat" where
  "fround2 (Fin x) = Fin (round2 x)"
| "fround2 PInf = PInf"
| "fround2 NInf = NInf"
| "fround2 NaN = NaN"

text \<open>
  The values of the parsed request and of the response: what \<^verbatim>\<open>json.loads\<close>
  builds, and what the resolvers and comparators return. A dict is the list of its
  items in insertion order; a dict holds each key once.
\<close>

datatype pyval =
    PNone
  | PBool bool
  | PInt int
  | PFloat pyfloat
  | PStr string
  | PList "pyval list"
  | PDict "(string \<times> pyval) list"

datatype exn = AttributeError | TypeError | IndexError | FetchError

type_synonym ticker = string

text \<open>
  The period handed to yfinance is whatever the loop over \<^verbatim>\<open>periods\<close> yields:
  a key of a dict (a string), or an element of a list.
\<close>

type_synonym period = pyval

section \<open>The data source\<close>

text \<open>
  \<^verbatim>\<open>yf.download(ticker, period=period, progress=False)\<close> raises or returns a
  DataFrame. The resolvers read three things of the frame: \<^verbatim>\<open>data.empty\<close>,
  \<^verbatim>\<open>"Close" in data\<close> and the column \<^verbatim>\<open>data["Close"]\<close>. A frame is
  therefore its Close column, \<open>None\<close> when it has no such column; a frame with a
  Close column is empty exactly when the column has no rows. Closing prices are finite
  numbers.

  \<^verbatim>\<open>yf.Ticker(ticker).info\<close> raises or returns a dict, of which
  \<^verbatim>\<open>get_fundamentals\<close> reads six keys with \<^verbatim>\<open>info.get\<close>: a key that is
  absent or holds \<^verbatim>\<open>None\<close> reads as \<open>None\<close>. The name is text, the other
  five are finite numbers.
\<close>

type_synonym frame = "real list option"

record yf_info =
  info_longName :: "string option"
  info_marketCap :: "real option"
  info_trailingPE :: "real option"
  info_trailingEps :: "real option"
  info_dividendYield :: "real option"
  info_debtToEquity :: "real option"

record source =
  download :: "ticker \<Rightarrow> period \<Rightarrow> exn + frame"
  ticker_info :: "ticker \<Rightarrow> exn + yf_info"

section \<open>Resolvers\<close>

text \<open>
  Each resolver is a \<^verbatim>\<open>try\<close> block whose \<^verbatim>\<open>except Exception\<close> handler
  returns \<^verbatim>\<open>None\<close>. The body is modelled with its exceptions (\<open>Inl\<close>), the
  resolver is the body under the handler.
\<close>

definition except_None :: "exn + 'a option \<Rightarrow> 'a option" where
  "except_None r = (case r of Inl e \<Rightarrow> None | Inr v \<Rightarrow> v)"

text \<open>\<^verbatim>\<open>get_return\<close>, lines 37-47.\<close>

definition get_return_try :: "source \<Rightarrow> ticker \<Rightarrow> period \<Rightarrow> exn + pyfloat option" where
  "get_return_try src ticker period =
     (case download src ticker period of
        Inl e \<Rightarrow> Inl e
      | Inr data \<Rightarrow>
          (case data of
             None \<Rightarrow> Inr None
           | Some closes \<Rightarrow>
               if closes = [] then Inr None
               else
                 let start_price = hd closes;
                     end_price = last closes
                 in Inr (Some (fround2 (fscale 100
                      (fdiv (end_price - start_price) start_price))))))"

definition get_return :: "source \<Rightarrow> ticker \<Rightarrow> period \<Rightarrow> pyfloat option" where
  "get_return src ticker period = except_None (get_return_try src ticker period)"

text \<open>
  \<^verbatim>\<open>get_volatility\<close>, lines 49-59. \<^verbatim>\<open>pct_change()\<close> divides each price by
  the one before it and subtracts 1; the first entry has no predecessor and is NaN.
  \<^verbatim>\<open>dropna()\<close> removes the NaN entries. \<^verbatim>\<open>std()\<close> is the sample standard
  deviation (\<^verbatim>\<open>ddof=1\<close>) of the entries that are not NaN: NaN when there are fewer
  than two of them, and NaN when one of them is infinite.
\<close>

fun pct_from :: "real \<Rightarrow> real list \<Rightarrow> pyfloat list" where
  "pct_from prev [] = []"
| "pct_from prev (x # xs) = fminus1 (fdiv x prev) # pct_from x xs"

fun pct_change :: "real list \<Rightarrow> pyfloat list" where
  "pct_change [] = []"
| "pct_change (x # xs) = NaN # pct_from x xs"

definition dropna :: "pyfloat list \<Rightarrow> pyfloat list" where
  "dropna xs = filter (\<lambda>x. x \<noteq> NaN) xs"

fun finite_values :: "pyfloat list \<Rightarrow> real list option" where
  "finite_values [] = Some []"
| "finite_values (Fin x # xs) = map_option ((#) x) (finite_values xs)"
| "finite_values (v # xs) = None"

definition mean :: "real list \<Rightarrow> real" where
  "mean xs = sum_list xs / real (length xs)"

definition sample_std :: "real list \<Rightarrow> real" where
  "sample_std xs =
     sqrt (sum_list (map (\<lambda>x. (x - mean xs)\<^sup>2) xs) / real (length xs - 1))"

definition series_std :: "pyfloat list \<Rightarrow> pyfloat" where
  "series_std xs =
     (let vs = dropna xs
      in if length vs < 2 then NaN
         else (case finite_values vs of
                 None \<Rightarrow> NaN
               | Some rs \<Rightarrow> Fin (sample_std rs)))"

definition get_volatility_try :: "source \<Rightarrow> ticker \<Rightarrow> period \<Rightarrow> exn + pyfloat option" where
  "get_volatility_try src ticker period =
     (case download src ticker period of
        Inl e \<Rightarrow> Inl e
      | Inr data \<Rightarrow>
          (case data of
             None \<Rightarrow> Inr None
           | Some closes \<Rightarrow>
               if closes = [] then Inr None
               else
                 let daily_returns = dropna (pct_change closes);
                     vol = fscale (sqrt 252) (series_std daily_returns)
                 in Inr (Some (fround2 (fscale 100 vol)))))"

definition get_volatility :: "source \<Rightarrow> ticker \<Rightarrow> period \<Rightarrow> pyfloat option" where
  "get_volatility src ticker period = except_None (get_volatility_try src ticker period)"

text \<open>
  \<^verbatim>\<open>get_max_min\<close>, lines 61-72. The returned dict has the two keys
  \<^verbatim>\<open>"max"\<close> and \<^verbatim>\<open>"min"\<close>.
\<close>

record max_min =
  mm_max :: pyfloat
  mm_min :: pyfloat

definition get_max_min_try :: "source \<Rightarrow> ticker \<Rightarrow> period \<Rightarrow> exn + max_min option" where
  "get_max_min_try src ticker period =
     (case download src ticker period of
        Inl e \<Rightarrow> Inl e
      | Inr data \<Rightarrow>
          (case data of
             None \<Rightarrow> Inr None
           | Some closes \<Rightarrow>
               if closes = [] then Inr None
               else Inr (Some \<lparr> mm_max = Fin (round2 (Max (set closes))),
                                 mm_min = Fin (round2 (Min (set closes))) \<rparr>)))"

definition get_max_min :: "source \<Rightarrow> ticker \<Rightarrow> period \<Rightarrow> max_min option" where
  "get_max_min src ticker period = except_None (get_max_min_try src ticker period)"

text \<open>
  \<^verbatim>\<open>get_fundamentals\<close>, lines 74-88. The name is passed on as it is. Each of the
  five numbers goes through \<^verbatim>\<open>float(x) if x else None\<close>: the test is Python's
  truth value, which is false for \<^verbatim>\<open>None\<close> and for zero.
\<close>

record fundamentals =
  longName :: "string option"
  marketCap :: "pyfloat option"
  peRatio :: "pyfloat option"
  eps :: "pyfloat option"
  dividendYield :: "pyfloat option"
  debtToEquity :: "pyfloat option"

definition float_if_truthy :: "real option \<Rightarrow> pyfloat option" where
  "float_if_truthy x =
     (case x of
        None \<Rightarrow> None
      | Some v \<Rightarrow> if v \<noteq> 0 then Some (Fin v) else None)"

definition get_fundamentals_try :: "source \<Rightarrow> ticker \<Rightarrow> exn + fundamentals option" where
  "get_fundamentals_try src ticker =
     (case ticker_info src ticker of
        Inl e \<Rightarrow> Inl e
      | Inr info \<Rightarrow>
          Inr (Some \<lparr> longName = info_longName info,
                       marketCap = float_if_truthy (info_marketCap info),
                       peRatio = float_if_truthy (info_trailingPE info),
                       eps = float_if_truthy (info_trailingEps info),
                       dividendYield = float_if_truthy (info_dividendYield info),
                       debtToEquity = float_if_truthy (info_debtToEquity info) \<rparr>))"

definition get_fundamentals :: "source \<Rightarrow> ticker \<Rightarrow> fundamentals option" where
  "get_fundamentals src ticker = except_None (get_fundamentals_try src ticker)"

section \<open>Comparators\<close>

text \<open>
  \<^verbatim>\<open>d[k] = v\<close> on a dict: the value of an existing key is replaced where it
  stands, a new key is added at the end.
\<close>

fun dict_set :: "('k \<times> 'v) list \<Rightarrow> 'k \<Rightarrow> 'v \<Rightarrow> ('k \<times> 'v) list" where
  "dict_set [] k v = [(k, v)]"
| "dict_set ((k', v') # d) k v =
     (if k' = k then (k, v) # d else (k', v') # dict_set d k v)"

text \<open>
  The first loop of every comparator (lines 93-96, 109-112, 133-136, 192-195) is
  \<^verbatim>\<open>for t in tickers: r = resolver(t); if r is not None: d[t] = r\<close>,
  starting from the empty dict.
\<close>

definition collect_available :: "(ticker \<Rightarrow> 'v option) \<Rightarrow> ticker list \<Rightarrow> (ticker \<times> 'v) list" where
  "collect_available resolver tickers =
     foldl (\<lambda>d t. case resolver t of None \<Rightarrow> d | Some r \<Rightarrow> dict_set d t r) [] tickers"

text \<open>
  \<^verbatim>\<open>max(d, key=lambda k: d[k])\<close> and \<^verbatim>\<open>min(d, key=lambda k: d[k])\<close> are
  one loop with two comparisons: it visits the keys in the dict's order, starts with the
  first item as the best one, and replaces the best item only by one whose value
  compares strictly greater (for \<^verbatim>\<open>max\<close>) or strictly smaller (for
  \<^verbatim>\<open>min\<close>). The function returns the item, that is the key together with its
  value \<^verbatim>\<open>d[k]\<close>. Python raises on an empty dict; the comparators call these only
  on non-empty ones, and the functions below take the first item apart from the rest.
\<close>

fun py_best_from ::
  "(pyfloat \<Rightarrow> pyfloat \<Rightarrow> bool) \<Rightarrow> ('k \<times> pyfloat) \<Rightarrow> ('k \<times> pyfloat) list \<Rightarrow> ('k \<times> pyfloat)" where
  "py_best_from better best [] = best"
| "py_best_from better best (item # rest) =
     (if better (snd item) (snd best) then py_best_from better item rest
      else py_best_from better best rest)"

definition py_max_from :: "('k \<times> pyfloat) \<Rightarrow> ('k \<times> pyfloat) list \<Rightarrow> ('k \<times> pyfloat)" where
  "py_max_from = py_best_from fgt"

definition py_min_from :: "('k \<times> pyfloat) \<Rightarrow> ('k \<times> pyfloat) list \<Rightarrow> ('k \<times> pyfloat)" where
  "py_min_from = py_best_from flt"

definition float_dict :: "(ticker \<times> pyfloat) list \<Rightarrow> pyval" where
  "float_dict d = PDict (map (\<lambda>(t, r). (t, PFloat r)) d)"

text \<open>\<^verbatim>\<open>compare_returns\<close>, lines 90-104.\<close>

definition compare_returns :: "source \<Rightarrow> ticker list \<Rightarrow> period \<Rightarrow> pyval" where
  "compare_returns src tickers period =
     (let performances = collect_available (\<lambda>t. get_return src t period) tickers
      in case performances of
           [] \<Rightarrow> PDict [(''error'', PStr ''No data available for tickers'')]
         | first # rest \<Rightarrow>
             (let (best_ticker, best_return) = py_max_from first rest
              in PDict [(''best_ticker'', PStr best_ticker),
                        (''best_return'', PFloat best_return),
                        (''all_returns'', float_dict performances)]))"

text \<open>\<^verbatim>\<open>compare_volatility\<close>, lines 106-128.\<close>

definition compare_volatility :: "source \<Rightarrow> ticker list \<Rightarrow> period \<Rightarrow> pyval" where
  "compare_volatility src tickers period =
     (let volatilities = collect_available (\<lambda>t. get_volatility src t period) tickers
      in case volatilities of
           [] \<Rightarrow> PDict [(''error'', PStr ''No volatility data available for tickers'')]
         | first # rest \<Rightarrow>
             (let (least_volatile, least_volatility) = py_min_from first rest;
                  (most_volatile, most_volatility) = py_max_from first rest
              in PDict [(''least_volatile'', PStr least_volatile),
                        (''least_volatility'', PFloat least_volatility),
                        (''most_volatile'', PStr most_volatile),
                        (''most_volatility'', PFloat most_volatility),
                        (''all_volatilities'', float_dict volatilities)]))"

text \<open>
  \<^verbatim>\<open>compare_fundamentals\<close>, lines 130-187. The dict of one ticker's fundamentals
  has the six keys of \<^verbatim>\<open>get_fundamentals\<close>. Each of the four dict comprehensions
  keeps, in the order of \<^verbatim>\<open>fundamentals_data\<close>, the tickers whose attribute passes
  its test; an entry of the analysis is written only when that dict is not empty.
\<close>

definition str_opt_py :: "string option \<Rightarrow> pyval" where
  "str_opt_py x = (case x of None \<Rightarrow> PNone | Some s \<Rightarrow> PStr s)"

definition float_opt_py :: "pyfloat option \<Rightarrow> pyval" where
  "float_opt_py x = (case x of None \<Rightarrow> PNone | Some r \<Rightarrow> PFloat r)"

definition fundamentals_py :: "fundamentals \<Rightarrow> pyval" where
  "fundamentals_py f =
     PDict [(''longName'', str_opt_py (longName f)),
            (''marketCap'', float_opt_py (marketCap f)),
            (''peRatio'', float_opt_py (peRatio f)),
            (''eps'', float_opt_py (eps f)),
            (''dividendYield'', float_opt_py (dividendYield f)),
            (''debtToEquity'', float_opt_py (debtToEquity f))]"

definition select_attr ::
  "(fundamentals \<Rightarrow> pyfloat option) \<Rightarrow> (pyfloat \<Rightarrow> bool) \<Rightarrow>
   (ticker \<times> fundamentals) list \<Rightarrow> (ticker \<times> pyfloat) list" where
  "select_attr attr test fundamentals_data =
     List.map_filter
       (\<lambda>(t, data). case attr data of
                       None \<Rightarrow> None
                     | Some v \<Rightarrow> if test v then Some (t, v) else None)
       fundamentals_data"

definition winner_py :: "(ticker \<times> pyfloat) \<Rightarrow> pyval" where
  "winner_py w = PDict [(''ticker'', PStr (fst w)), (''value'', PFloat (snd w))]"

definition analysis_max :: "string \<Rightarrow> (ticker \<times> pyfloat) list \<Rightarrow> (string \<times> pyval) list" where
  "analysis_max name d =
     (case d of [] \<Rightarrow> [] | first # rest \<Rightarrow> [(name, winner_py (py_max_from first rest))])"

definition analysis_min :: "string \<Rightarrow> (ticker \<times> pyfloat) list \<Rightarrow> (string \<times> pyval) list" where
  "analysis_min name d =
     (case d of [] \<Rightarrow> [] | first # rest \<Rightarrow> [(name, winner_py (py_min_from first rest))])"

definition compare_fundamentals :: "source \<Rightarrow> ticker list \<Rightarrow> pyval" where
  "compare_fundamentals src tickers =
     (let fundamentals_data = collect_available (get_fundamentals src) tickers
      in if fundamentals_data = []
         then PDict [(''error'', PStr ''No fundamentals data available for tickers'')]
         else
           (let market_caps = select_attr marketCap (\<lambda>v. True) fundamentals_data;
                pe_ratios = select_attr peRatio (\<lambda>v. fgt v (Fin 0)) fundamentals_data;
                dividend_yields = select_attr dividendYield (\<lambda>v. fgt v (Fin 0)) fundamentals_data;
                debt_equity = select_attr debtToEquity (\<lambda>v. fgt v (Fin 0)) fundamentals_data
            in PDict [(''all_fundamentals'',
                         PDict (map (\<lambda>(t, data). (t, fundamentals_py data)) fundamentals_data)),
                      (''analysis'',
                         PDict (analysis_max ''largest_market_cap'' market_caps
                              @ analysis_min ''best_pe_ratio'' pe_ratios
                              @ analysis_max ''highest_dividend_yield'' dividend_yields
                              @ analysis_min ''lowest_debt_to_equity'' debt_equity))]))"

text \<open>\<^verbatim>\<open>compare_max_min\<close>, lines 189-217.\<close>

definition max_min_py :: "max_min \<Rightarrow> pyval" where
  "max_min_py d = PDict [(''max'', PFloat (mm_max d)), (''min'', PFloat (mm_min d))]"

definition compare_max_min :: "source \<Rightarrow> ticker list \<Rightarrow> period \<Rightarrow> pyval" where
  "compare_max_min src tickers period =
     (let max_min_data = collect_available (\<lambda>t. get_max_min src t period) tickers
      in if max_min_data = []
         then PDict [(''error'', PStr ''No max/min data available for tickers'')]
         else
           (let all_maxes = map (\<lambda>(t, data). (t, mm_max data)) max_min_data;
                all_mins = map (\<lambda>(t, data). (t, mm_min data)) max_min_data;
                highest_max = py_max_from (hd all_maxes) (tl all_maxes);
                lowest_min = py_min_from (hd all_mins) (tl all_mins)
            in PDict [(''highest_max'', winner_py highest_max),
                      (''lowest_min'', winner_py lowest_min),
                      (''all_data'',
                         PDict (map (\<lambda>(t, data). (t, max_min_py data)) max_min_data))]))"

section \<open>The request walker\<close>

text \<open>
  \<^verbatim>\<open>to_dict\<close>, lines 220-227: dicts and lists are rebuilt with their members
  converted, everything else is returned as it is.
\<close>

fun to_dict :: "pyval \<Rightarrow> pyval" where
  "to_dict (PDict items) = PDict (map (\<lambda>kv. (fst kv, to_dict (snd kv))) items)"
| "to_dict (PList xs) = PList (map to_dict xs)"
| "to_dict obj = obj"

text \<open>
  A loop \<^verbatim>\<open>for k, v in d.items(): ...\<close> whose body mutates the object \<open>v\<close> or
  assigns to \<^verbatim>\<open>d[k]\<close>, and may raise: the body gives the new value held under
  \<open>k\<close>, the first exception ends the loop.
\<close>

fun for_items ::
  "(string \<Rightarrow> pyval \<Rightarrow> exn + pyval) \<Rightarrow> (string \<times> pyval) list \<Rightarrow> exn + (string \<times> pyval) list" where
  "for_items body [] = Inr []"
| "for_items body ((k, v) # rest) =
     (case body k v of
        Inl e \<Rightarrow> Inl e
      | Inr v' \<Rightarrow>
          (case for_items body rest of
             Inl e \<Rightarrow> Inl e
           | Inr rest' \<Rightarrow> Inr ((k, v') # rest')))"

text \<open>
  \<^verbatim>\<open>periods[period] = v\<close> on a list: the key must be an integer (a bool counts as
  0 or 1) within the list's bounds, negative keys counting from the end.
\<close>

definition int_index :: "int \<Rightarrow> nat \<Rightarrow> exn + nat" where
  "int_index k n =
     (if 0 \<le> k \<and> k < int n then Inr (nat k)
      else if - int n \<le> k \<and> k < 0 then Inr (nat (k + int n))
      else Inl IndexError)"

fun list_index :: "pyval \<Rightarrow> nat \<Rightarrow> exn + nat" where
  "list_index (PInt k) n = int_index k n"
| "list_index (PBool b) n = int_index (if b then 1 else 0) n"
| "list_index v n = Inl TypeError"

text \<open>
  The loop over the periods of one ticker, lines 280-291 and 302-311:
  \<^verbatim>\<open>for period in periods: try: periods[period] = resolve(period)
  except Exception: periods[period] = None\<close>.
  The resolvers and comparators do not raise, so only the assignment can; the handler
  then makes the same assignment, which raises again, and that exception leaves the loop.

  Over a list the loop reads the element at the next position of the list as it is by
  then.
\<close>

function walk_list :: "(period \<Rightarrow> pyval) \<Rightarrow> pyval list \<Rightarrow> nat \<Rightarrow> exn + pyval list" where
  "walk_list resolve xs i =
     (if i < length xs then
        (case list_index (xs ! i) (length xs) of
           Inl e \<Rightarrow> Inl e
         | Inr j \<Rightarrow> walk_list resolve (xs[j := resolve (xs ! i)]) (Suc i))
      else Inr xs)"
  by pat_completeness auto
termination
  by (relation "measure (\<lambda>(resolve, xs, i). length xs - i)") auto

text \<open>
  \<open>None\<close> as the first argument stands for a metric name that no branch of the
  \<^verbatim>\<open>if\<close>/\<^verbatim>\<open>elif\<close> chain matches: the loop body then does nothing, and the
  loop only needs \<^verbatim>\<open>periods\<close> to be iterable (a dict, a list or a string).
  Over a dict the loop yields the keys and the assignment replaces the value of that key.
  Over a string it yields the characters and the assignment raises.
\<close>

fun walk_periods :: "(period \<Rightarrow> pyval) option \<Rightarrow> pyval \<Rightarrow> exn + pyval" where
  "walk_periods None (PDict items) = Inr (PDict items)"
| "walk_periods None (PList xs) = Inr (PList xs)"
| "walk_periods None (PStr s) = Inr (PStr s)"
| "walk_periods None v = Inl TypeError"
| "walk_periods (Some resolve) (PDict items) =
     Inr (PDict (map (\<lambda>(k, v). (k, resolve (PStr k))) items))"
| "walk_periods (Some resolve) (PList xs) =
     (case walk_list resolve xs 0 of Inl e \<Rightarrow> Inl e | Inr ys \<Rightarrow> Inr (PList ys))"
| "walk_periods (Some resolve) (PStr s) =
     (if s = [] then Inr (PStr s) else Inl TypeError)"
| "walk_periods (Some resolve) v = Inl TypeError"

text \<open>The two \<^verbatim>\<open>if\<close>/\<^verbatim>\<open>elif\<close> chains, lines 304-309 and 282-289.\<close>

definition metric_resolver :: "source \<Rightarrow> string \<Rightarrow> ticker \<Rightarrow> (period \<Rightarrow> pyval) option" where
  "metric_resolver src metric ticker =
     (if metric = ''return'' then
        Some (\<lambda>period. float_opt_py (get_return src ticker period))
      else if metric = ''volatility'' then
        Some (\<lambda>period. float_opt_py (get_volatility src ticker period))
      else if metric = ''max_min'' then
        Some (\<lambda>period. case get_max_min src ticker period of
                          None \<Rightarrow> PNone | Some d \<Rightarrow> max_min_py d)
      else None)"

definition compare_resolver :: "source \<Rightarrow> string \<Rightarrow> ticker list \<Rightarrow> (period \<Rightarrow> pyval) option" where
  "compare_resolver src sub_metric tickers =
     (if sub_metric = ''return'' then
        Some (\<lambda>period. to_dict (compare_returns src tickers period))
      else if sub_metric = ''volatility'' then
        Some (\<lambda>period. to_dict (compare_volatility src tickers period))
      else if sub_metric = ''fundamentals'' then
        Some (\<lambda>period. to_dict (compare_fundamentals src tickers))
      else if sub_metric = ''max_min'' then
        Some (\<lambda>period. to_dict (compare_max_min src tickers period))
      else None)"

text \<open>
  \<^verbatim>\<open>for ticker, periods in d.items(): for period in periods: ...\<close>;
  \<^verbatim>\<open>d.items()\<close> raises AttributeError when \<open>d\<close> is not a dict.
\<close>

fun walk_tickers :: "(ticker \<Rightarrow> (period \<Rightarrow> pyval) option) \<Rightarrow> pyval \<Rightarrow> exn + pyval" where
  "walk_tickers resolver (PDict items) =
     (case for_items (\<lambda>ticker periods. walk_periods (resolver ticker) periods) items of
        Inl e \<Rightarrow> Inl e
      | Inr items' \<Rightarrow> Inr (PDict items'))"
| "walk_tickers resolver v = Inl AttributeError"

text \<open>
  The comparators of a \<^verbatim>\<open>compare\<close> sub-metric are called on
  \<^verbatim>\<open>list(tickers_cmp.keys())\<close>, all tickers under the sub-metric.
\<close>

fun walk_compare :: "source \<Rightarrow> string \<Rightarrow> pyval \<Rightarrow> exn + pyval" where
  "walk_compare src sub_metric (PDict tickers_cmp) =
     walk_tickers (\<lambda>ticker. compare_resolver src sub_metric (map fst tickers_cmp))
       (PDict tickers_cmp)"
| "walk_compare src sub_metric v = Inl AttributeError"

definition fundamentals_opt_py :: "fundamentals option \<Rightarrow> pyval" where
  "fundamentals_opt_py x = (case x of None \<Rightarrow> PNone | Some f \<Rightarrow> fundamentals_py f)"

text \<open>The body of the outermost loop, lines 277-311, for one item of the request.\<close>

fun walk_branch :: "source \<Rightarrow> string \<Rightarrow> pyval \<Rightarrow> exn + pyval" where
  "walk_branch src metric (PDict items) =
     (if metric = ''compare'' then
        (case for_items (walk_compare src) items of
           Inl e \<Rightarrow> Inl e
         | Inr items' \<Rightarrow> Inr (PDict items'))
      else if metric = ''fundamentals'' then
        Inr (PDict (map (\<lambda>(ticker, periods).
                           (ticker, fundamentals_opt_py (get_fundamentals src ticker))) items))
      else walk_tickers (metric_resolver src metric) (PDict items))"
| "walk_branch src metric v = Inl AttributeError"

text \<open>
  \<^verbatim>\<open>receive_prompt\<close> from line 275 on, as a function of the parsed request. The
  two calls of the language model are outside the model: the response keeps the status
  and the result, an error response the exception instead of the message built from it.
\<close>

datatype response = StatusError exn | StatusOk pyval

fun receive_prompt :: "source \<Rightarrow> pyval \<Rightarrow> response" where
  "receive_prompt src (PDict items) =
     (case for_items (walk_branch src) items of
        Inl e \<Rightarrow> StatusError e
      | Inr items' \<Rightarrow> StatusOk (PDict items'))"
| "receive_prompt src parsed = StatusError AttributeError"

text \<open>Reading a value of the response by the keys that lead to it.\<close>

fun py_get :: "pyval \<Rightarrow> string \<Rightarrow> pyval option" where
  "py_get (PDict items) k = map_of items k"
| "py_get v k = None"

fun py_path :: "pyval \<Rightarrow> string list \<Rightarrow> pyval option" where
  "py_path v [] = Some v"
| "py_path v (k # ks) = (case py_get v k of None \<Rightarrow> None | Some v' \<Rightarrow> py_path v' ks)"

section \<open>Example data\<close>

text \<open>
  A data source used to run the functions on concrete inputs: \<open>AAA\<close> and \<open>EEE\<close>
  have the same three closing prices, \<open>BBB\<close> has a single one, the frame of \<open>CCC\<close>
  is empty, the frame of \<open>DDD\<close> has no Close column, \<open>FFF\<close> has the prices 3 and 4,
  \<open>GGG\<close> the prices 0 and 5, and every other download raises.
  Fundamentals exist for \<open>AAA\<close> and \<open>BBB\<close> only.
\<close>

definition example_download :: "ticker \<Rightarrow> period \<Rightarrow> exn + frame" where
  "example_download t p =
     (if t = ''AAA'' \<or> t = ''EEE'' then Inr (Some [100, 110, 121])
      else if t = ''BBB'' then Inr (Some [50])
      else if t = ''CCC'' then Inr (Some [])
      else if t = ''DDD'' then Inr None
      else if t = ''FFF'' then Inr (Some [3, 4])
      else if t = ''GGG'' then Inr (Some [0, 5])
      else Inl FetchError)"

definition example_info :: "ticker \<Rightarrow> exn + yf_info" where
  "example_info t =
     (if t = ''AAA'' then
        Inr \<lparr> info_longName = Some ''Alpha'', info_marketCap = Some 100,
              info_trailingPE = Some (- 5), info_trailingEps = Some 0,
              info_dividendYield = None, info_debtToEquity = Some (12345 / 1000) \<rparr>
      else if t = ''BBB'' then
        Inr \<lparr> info_longName = Some ''Beta'', info_marketCap = Some 50,
              info_trailingPE = Some 10, info_trailingEps = Some 2,
              info_dividendYield = Some (1 / 2), info_debtToEquity = Some (12345 / 1000) \<rparr>
      else Inl FetchError)"

definition example_source :: source where
  "example_source = \<lparr> download = example_download, ticker_info = example_info \<rparr>"

definition ytd :: period where
  "ytd = PStr ''ytd''"

section \<open>Notions used in the statements\<close>

text \<open>A number with at most two decimal places: its hundredfold is an integer.\<close>

definition two_decimals :: "real \<Rightarrow> bool" where
  "two_decimals x = (of_int \<lfloor>x * 100\<rfloor> = x * 100)"

text \<open>
  An attribute of the fundamentals record carries the fetched value when the fetched
  record has one and it is not zero, and is null otherwise.
\<close>

definition carries :: "real option \<Rightarrow> pyfloat option \<Rightarrow> bool" where
  "carries fetched attr =
     (case fetched of
        None \<Rightarrow> attr = None
      | Some v \<Rightarrow> if v = 0 then attr = None else attr = Some (Fin v))"

text \<open>
  The volatility as the specification words it: the day-over-day percentage changes of
  the series, their sample standard deviation, times the square root of 252, as a
  percentage, rounded to two decimals.
\<close>

definition spec_changes :: "real list \<Rightarrow> real list" where
  "spec_changes ps = map (\<lambda>(a, b). (b - a) / a) (zip ps (tl ps))"

definition spec_volatility :: "real list \<Rightarrow> real" where
  "spec_volatility ps = round2 (sample_std (spec_changes ps) * sqrt 252 * 100)"

text \<open>A comparison that is irreflexive and transitive.\<close>

definition strict_order :: "(pyfloat \<Rightarrow> pyfloat \<Rightarrow> bool) \<Rightarrow> bool" where
  "strict_order better =
     ((\<forall>a. \<not> better a a) \<and> (\<forall>a b c. better a b \<longrightarrow> better b c \<longrightarrow> better a c))"

text \<open>
  One attribute of the fundamentals of a ticker as \<^verbatim>\<open>get_fundamentals\<close> returns them:
  null when the record or the attribute is null.
\<close>

definition fund_attr :: "source \<Rightarrow> (fundamentals \<Rightarrow> pyfloat option) \<Rightarrow> ticker \<Rightarrow> pyfloat option" where
  "fund_attr src attr t = (case get_fundamentals src t of None \<Rightarrow> None | Some f \<Rightarrow> attr f)"

text \<open>
  A ticker qualifies for a sub-comparison with the value \<open>x\<close> when its attribute is
  \<open>x\<close> and, where the sub-comparison asks for it, \<open>x\<close> is strictly positive.
\<close>

definition qualifying ::
  "source \<Rightarrow> (fundamentals \<Rightarrow> pyfloat option) \<Rightarrow> bool \<Rightarrow> ticker \<Rightarrow> real \<Rightarrow> bool" where
  "qualifying src attr positive t x =
     (fund_attr src attr t = Some (Fin x) \<and> (positive \<longrightarrow> 0 < x))"

text \<open>
  A sub-comparison of \<^verbatim>\<open>compare_fundamentals\<close>, read off its result under
  \<^verbatim>\<open>analysis\<close>: when some listed ticker qualifies, the entry names a listed,
  qualifying ticker whose value is the highest (or the lowest) of all qualifying values;
  when none does, the entry is absent.
\<close>

definition sub_comparison_ok ::
  "source \<Rightarrow> ticker list \<Rightarrow> string \<Rightarrow> (fundamentals \<Rightarrow> pyfloat option) \<Rightarrow> bool \<Rightarrow> bool \<Rightarrow> bool" where
  "sub_comparison_ok src tickers name attr positive highest =
     (let entry = py_path (compare_fundamentals src tickers) [''analysis'', name]
      in if \<exists>t\<in>set tickers. \<exists>x. qualifying src attr positive t x
         then \<exists>w y. entry = Some (winner_py (w, Fin y)) \<and>
                w \<in> set tickers \<and> qualifying src attr positive w y \<and>
                (\<forall>t\<in>set tickers. \<forall>x. qualifying src attr positive t x \<longrightarrow>
                   (if highest then x \<le> y else y \<le> x))
         else entry = None)"


text \<open>
  No price series to compute on: the download raised, the frame has no Close column, or
  the series is empty.
\<close>

definition unavailable_frame :: "source \<Rightarrow> ticker \<Rightarrow> period \<Rightarrow> bool" where
  "unavailable_frame src t p =
     (case download src t p of
        Inl e \<Rightarrow> True
      | Inr None \<Rightarrow> True
      | Inr (Some closes) \<Rightarrow> closes = [])"

text \<open>
  The shape of a request that the loop walks without an exception: every branch is a dict
  of tickers, every ticker holds a dict of periods; under \<^verbatim>\<open>compare\<close> that shape
  sits one level deeper, and under \<^verbatim>\<open>fundamentals\<close> only the branch itself is
  looked at.
\<close>

fun is_dict :: "pyval \<Rightarrow> bool" where
  "is_dict (PDict items) = True"
| "is_dict v = False"

definition tickers_ok :: "pyval \<Rightarrow> bool" where
  "tickers_ok v =
     (case v of PDict items \<Rightarrow> list_all (\<lambda>(t, periods). is_dict periods) items
      | _ \<Rightarrow> False)"

definition branch_ok :: "string \<Rightarrow> pyval \<Rightarrow> bool" where
  "branch_ok metric v =
     (if metric = ''compare'' then
        (case v of PDict subs \<Rightarrow> list_all (\<lambda>(sub_metric, tickers_cmp). tickers_ok tickers_cmp) subs
         | _ \<Rightarrow> False)
      else if metric = ''fundamentals'' then is_dict v
      else tickers_ok v)"

definition request_ok :: "pyval \<Rightarrow> bool" where
  "request_ok parsed =
     (case parsed of PDict branches \<Rightarrow> list_all (\<lambda>(metric, v). branch_ok metric v) branches
      | _ \<Rightarrow> False)"

text \<open>The comparator that a recognized sub-metric of \<^verbatim>\<open>compare\<close> selects.\<close>

definition comparison :: "source \<Rightarrow> string \<Rightarrow> ticker list \<Rightarrow> period \<Rightarrow> pyval" where
  "comparison src sub_metric tickers period =
     (if sub_metric = ''return'' then compare_returns src tickers period
      else if sub_metric = ''volatility'' then compare_volatility src tickers period
      else if sub_metric = ''fundamentals'' then compare_fundamentals src tickers
      else compare_max_min src tickers period)"

text \<open>
  A dict of periods after the loop over it: with a resolver every value is the resolver's
  result for its key, without one the dict is as it was.
\<close>

definition fill_periods :: "(period \<Rightarrow> pyval) option \<Rightarrow> pyval \<Rightarrow> pyval" where
  "fill_periods resolve periods =
     (case periods of
        PDict items \<Rightarrow>
          (case resolve of None \<Rightarrow> PDict items
           | Some f \<Rightarrow> PDict (map (\<lambda>(k, v). (k, f (PStr k))) items))
      | _ \<Rightarrow> periods)"

text \<open>
  The values that the loops of \<^verbatim>\<open>receive_prompt\<close> leave behind when every
  \<^verbatim>\<open>.items()\<close> is called on a dict and every \<^verbatim>\<open>periods\<close> is a dict: a dict
  of tickers, the dict of tickers of one \<^verbatim>\<open>compare\<close> sub-metric, and one branch of
  the request.
\<close>

definition fill_tickers :: "(ticker \<Rightarrow> (period \<Rightarrow> pyval) option) \<Rightarrow> pyval \<Rightarrow> pyval" where
  "fill_tickers resolver v =
     (case v of
        PDict items \<Rightarrow>
          PDict (map (\<lambda>(t, periods). (t, fill_periods (resolver t) periods)) items)
      | _ \<Rightarrow> v)"

definition fill_compare :: "source \<Rightarrow> string \<Rightarrow> pyval \<Rightarrow> pyval" where
  "fill_compare src sub_metric tickers_cmp =
     (case tickers_cmp of
        PDict items \<Rightarrow>
          fill_tickers (\<lambda>t. compare_resolver src sub_metric (map fst items)) tickers_cmp
      | _ \<Rightarrow> tickers_cmp)"

definition fill_branch :: "source \<Rightarrow> string \<Rightarrow> pyval \<Rightarrow> pyval" where
  "fill_branch src metric v =
     (if metric = ''compare'' then
        (case v of
           PDict subs \<Rightarrow>
             PDict (map (\<lambda>(sub_metric, tickers_cmp).
                          (sub_metric, fill_compare src sub_metric tickers_cmp)) subs)
         | _ \<Rightarrow> v)
      else if metric = ''fundamentals'' then
        (case v of
           PDict items \<Rightarrow>
             PDict (map (\<lambda>(t, periods).
                          (t, fundamentals_opt_py (get_fundamentals src t))) items)
         | _ \<Rightarrow> v)
      else fill_tickers (metric_resolver src metric) v)"

section \<open>Properties of the resolvers\<close>

lemma round_half_even_zero: "round_half_even 0 = 0"
  by (simp add: round_half_even_def)

lemma two_decimals_round2: "two_decimals (round2 x)"
  by (simp add: two_decimals_def round2_def)

lemma pct_from_finite:
  "\<forall>c\<in>set (butlast (prev # xs)). c \<noteq> 0 \<Longrightarrow>
   pct_from prev xs = map Fin (map (\<lambda>(a, b). (b - a) / a) (zip (prev # xs) xs))"
proof (induction xs arbitrary: prev)
  case Nil
  then show ?case by simp
next
  case (Cons x xs)
  from Cons.prems have p: "prev \<noteq> 0" and rest: "\<forall>c\<in>set (butlast (x # xs)). c \<noteq> 0"
    by auto
  have "fminus1 (fdiv x prev) = Fin ((x - prev) / prev)"
    using p by (simp add: fdiv_def field_simps)
  with Cons.IH [OF rest] show ?case by simp
qed

lemma dropna_Fin: "dropna (map Fin zs) = map Fin zs"
  by (induction zs) (simp_all add: dropna_def)

lemma finite_values_Fin: "finite_values (map Fin zs) = Some zs"
  by (induction zs) simp_all

lemma pct_change_finite:
  assumes "closes \<noteq> []" and "\<forall>c\<in>set (butlast closes). c \<noteq> 0"
  shows "dropna (pct_change closes) = map Fin (spec_changes closes)"
proof -
  obtain x xs where c: "closes = x # xs" using assms(1) by (cases closes) auto
  have "pct_from x xs = map Fin (spec_changes closes)"
    using pct_from_finite [of x xs] assms(2) c by (simp add: spec_changes_def)
  then have "pct_change closes = NaN # map Fin (spec_changes closes)"
    using c by simp
  then show ?thesis
    using dropna_Fin [of "spec_changes closes"] by (simp add: dropna_def)
qed

lemma length_spec_changes: "length (spec_changes ps) = length ps - 1"
  by (simp add: spec_changes_def)

lemma length_pct_from: "length (pct_from prev xs) = length xs"
  by (induction xs arbitrary: prev) simp_all

lemma series_std_short: "length xs < 2 \<Longrightarrow> series_std xs = NaN"
proof -
  assume "length xs < 2"
  moreover have "length (dropna xs) \<le> length xs" by (simp add: dropna_def)
  ultimately show ?thesis by (simp add: series_std_def Let_def)
qed

lemma get_volatility_None_iff:
  "get_volatility src t p = None \<longleftrightarrow>
     (\<exists>e. download src t p = Inl e) \<or> download src t p = Inr None \<or>
     download src t p = Inr (Some [])"
  by (auto simp: get_volatility_def get_volatility_try_def except_None_def Let_def
      split: sum.splits option.splits)

lemma get_volatility_short:
  assumes "download src t p = Inr (Some closes)" "closes \<noteq> []" "length closes < 3"
  shows "get_volatility src t p = Some NaN"
proof -
  obtain x xs where c: "closes = x # xs" using assms(2) by (cases closes) auto
  have "length (dropna (pct_change closes)) \<le> length (pct_from x xs)"
    using c by (simp add: dropna_def)
  then have "length (dropna (pct_change closes)) < 2"
    using assms(3) c by (simp add: length_pct_from)
  then have "series_std (dropna (pct_change closes)) = NaN"
    by (rule series_std_short)
  then show ?thesis
    using assms(1,2)
    by (simp add: get_volatility_def get_volatility_try_def except_None_def)
qed

lemma get_volatility_long:
  assumes "download src t p = Inr (Some closes)" "3 \<le> length closes"
    "\<forall>c\<in>set (butlast closes). c \<noteq> 0"
  shows "get_volatility src t p = Some (Fin (spec_volatility closes))"
proof -
  have ne: "closes \<noteq> []" using assms(2) by auto
  have d: "dropna (pct_change closes) = map Fin (spec_changes closes)"
    using pct_change_finite [OF ne assms(3)] .
  have "series_std (map Fin (spec_changes closes)) = Fin (sample_std (spec_changes closes))"
    using assms(2)
    by (simp add: series_std_def dropna_Fin finite_values_Fin length_spec_changes)
  then show ?thesis
    using assms(1) ne d
    by (simp add: get_volatility_def get_volatility_try_def except_None_def
        spec_volatility_def)
qed

lemma example_download_simps:
  "download example_source ''AAA'' p = Inr (Some [100, 110, 121])"
  "download example_source ''EEE'' p = Inr (Some [100, 110, 121])"
  "download example_source ''BBB'' p = Inr (Some [50])"
  "download example_source ''CCC'' p = Inr (Some [])"
  "download example_source ''DDD'' p = Inr None"
  "download example_source ''ZZZ'' p = Inl FetchError"
  "download example_source ''FFF'' p = Inr (Some [3, 4])"
  "download example_source ''GGG'' p = Inr (Some [0, 5])"
  by (simp_all add: example_source_def example_download_def)

lemma example_get_fundamentals:
  "get_fundamentals example_source ''AAA'' =
     Some \<lparr> longName = Some ''Alpha'', marketCap = Some (Fin 100),
            peRatio = Some (Fin (- 5)), eps = None,
            dividendYield = None, debtToEquity = Some (Fin (12345 / 1000)) \<rparr>"
  "get_fundamentals example_source ''BBB'' =
     Some \<lparr> longName = Some ''Beta'', marketCap = Some (Fin 50),
            peRatio = Some (Fin 10), eps = Some (Fin 2),
            dividendYield = Some (Fin (1 / 2)), debtToEquity = Some (Fin (12345 / 1000)) \<rparr>"
  "get_fundamentals example_source ''ZZZ'' = None"
  by (simp_all add: get_fundamentals_def get_fundamentals_try_def except_None_def
      float_if_truthy_def example_source_def example_info_def)

lemma fround2_two_decimals: "fround2 y = Fin x \<Longrightarrow> two_decimals x"
  by (cases y) (auto simp: two_decimals_round2)

lemma get_return_rounded: "get_return src t p = Some (Fin x) \<Longrightarrow> two_decimals x"
  by (auto simp: get_return_def get_return_try_def except_None_def Let_def
      split: sum.splits option.splits if_splits dest: fround2_two_decimals)

lemma get_volatility_rounded: "get_volatility src t p = Some (Fin x) \<Longrightarrow> two_decimals x"
  by (auto simp: get_volatility_def get_volatility_try_def except_None_def Let_def
      split: sum.splits option.splits if_splits dest: fround2_two_decimals)

lemma get_max_min_rounded:
  "get_max_min src t p = Some d \<Longrightarrow>
   \<exists>a b. mm_max d = Fin a \<and> mm_min d = Fin b \<and> two_decimals a \<and> two_decimals b"
  by (auto simp: get_max_min_def get_max_min_try_def except_None_def Let_def
      two_decimals_round2 split: sum.splits option.splits if_splits)

lemma get_fundamentals_carries:
  "ticker_info src t = Inr info \<Longrightarrow>
   \<exists>f. get_fundamentals src t = Some f \<and>
       longName f = info_longName info \<and>
       carries (info_marketCap info) (marketCap f) \<and>
       carries (info_trailingPE info) (peRatio f) \<and>
       carries (info_trailingEps info) (eps f) \<and>
       carries (info_dividendYield info) (dividendYield f) \<and>
       carries (info_debtToEquity info) (debtToEquity f)"
  by (auto simp: get_fundamentals_def get_fundamentals_try_def except_None_def
        float_if_truthy_def carries_def split: option.splits)

lemma example_get_return:
  "get_return example_source ''AAA'' p = Some (Fin 21)"
  "get_return example_source ''EEE'' p = Some (Fin 21)"
  "get_return example_source ''BBB'' p = Some (Fin 0)"
  "get_return example_source ''CCC'' p = None"
  "get_return example_source ''DDD'' p = None"
  "get_return example_source ''ZZZ'' p = None"
  by (simp_all add: get_return_def get_return_try_def except_None_def example_download_simps
      fdiv_def round2_def round_half_even_def)

lemma example_get_volatility:
  "get_volatility example_source ''AAA'' p = Some (Fin 0)"
  "get_volatility example_source ''EEE'' p = Some (Fin 0)"
  "get_volatility example_source ''BBB'' p = Some NaN"
  "get_volatility example_source ''CCC'' p = None"
  "get_volatility example_source ''DDD'' p = None"
  "get_volatility example_source ''ZZZ'' p = None"
  by (simp_all add: get_volatility_def get_volatility_try_def except_None_def
      example_download_simps fdiv_def round2_def round_half_even_def dropna_def
      series_std_def sample_std_def mean_def)

lemma example_get_max_min:
  "get_max_min example_source ''AAA'' p = Some \<lparr> mm_max = Fin 121, mm_min = Fin 100 \<rparr>"
  "get_max_min example_source ''EEE'' p = Some \<lparr> mm_max = Fin 121, mm_min = Fin 100 \<rparr>"
  "get_max_min example_source ''BBB'' p = Some \<lparr> mm_max = Fin 50, mm_min = Fin 50 \<rparr>"
  "get_max_min example_source ''CCC'' p = None"
  "get_max_min example_source ''DDD'' p = None"
  "get_max_min example_source ''ZZZ'' p = None"
  by (simp_all add: get_max_min_def get_max_min_try_def except_None_def
      example_download_simps round2_def round_half_even_def)

text \<open>
  C2, as the code has it. \<^verbatim>\<open>get_volatility\<close> returns null exactly when the
  download raises, the frame has no Close column, or the series is empty. A series of
  one or two points is not unavailable: it has fewer than two defined changes, their
  standard deviation is NaN, and the function returns the float NaN. For a series of at
  least three points whose prices (but possibly the last) are not zero, the result is
  the sample standard deviation of the day-over-day percentage changes, times the square
  root of 252, as a percentage, rounded to two decimals.
\<close>

theorem get_volatility_cases:
  "(get_volatility src t p = None \<longleftrightarrow>
      (\<exists>e. download src t p = Inl e) \<or> download src t p = Inr None \<or>
      download src t p = Inr (Some [])) \<and>
   (download src t p = Inr (Some closes) \<and> closes \<noteq> [] \<and> length closes < 3 \<longrightarrow>
      get_volatility src t p = Some NaN) \<and>
   (download src t p = Inr (Some closes) \<and> 3 \<le> length closes \<and>
      (\<forall>c\<in>set (butlast closes). c \<noteq> 0) \<longrightarrow>
      get_volatility src t p = Some (Fin (spec_volatility closes)))"
  using get_volatility_None_iff [of src t p] get_volatility_short [of src t p closes]
    get_volatility_long [of src t p closes]
  by blast

theorem get_volatility_cases_witness:
  "download example_source ''CCC'' ytd = Inr (Some []) \<and>
   get_volatility example_source ''CCC'' ytd = None \<and>
   download example_source ''BBB'' ytd = Inr (Some [50]) \<and>
   get_volatility example_source ''BBB'' ytd = Some NaN \<and>
   download example_source ''AAA'' ytd = Inr (Some [100, 110, 121]) \<and>
   butlast [100, 110, 121 :: real] = [100, 110] \<and> (100 :: real) \<noteq> 0 \<and> (110 :: real) \<noteq> 0 \<and>
   get_volatility example_source ''AAA'' ytd = Some (Fin (spec_volatility [100, 110, 121]))"
  using get_volatility_cases [of example_source "''CCC''" ytd "[]"]
    get_volatility_cases [of example_source "''BBB''" ytd "[50]"]
    get_volatility_cases [of example_source "''AAA''" ytd "[100, 110, 121]"]
  by (simp add: example_download_simps)

text \<open>
  C2 as stated fails on a series of one point, which has fewer than 2 points: the result
  is NaN, not null.
\<close>

theorem get_volatility_one_point_counterexample:
  "download example_source ''BBB'' ytd = Inr (Some [50]) \<and>
   get_volatility example_source ''BBB'' ytd = Some NaN"
  by (simp add: get_volatility_def get_volatility_try_def except_None_def
      example_download_simps dropna_def series_std_def)

text \<open>
  C3, as the code has it. When the fetch succeeds, \<^verbatim>\<open>get_fundamentals\<close> returns a
  record whose name is the fetched name (null when absent), and each of whose five
  numeric attributes carries the fetched value when that value is present and not zero,
  and is null when it is absent or zero. The whole record is null exactly when the fetch
  raises.
\<close>

theorem get_fundamentals_attributes:
  "(ticker_info src t = Inr info \<longrightarrow>
      (\<exists>f. get_fundamentals src t = Some f \<and>
           longName f = info_longName info \<and>
           carries (info_marketCap info) (marketCap f) \<and>
           carries (info_trailingPE info) (peRatio f) \<and>
           carries (info_trailingEps info) (eps f) \<and>
           carries (info_dividendYield info) (dividendYield f) \<and>
           carries (info_debtToEquity info) (debtToEquity f))) \<and>
   (get_fundamentals src t = None \<longleftrightarrow> (\<exists>e. ticker_info src t = Inl e))"
  by (cases "ticker_info src t")
     (auto simp: get_fundamentals_def get_fundamentals_try_def except_None_def
        float_if_truthy_def carries_def split: option.splits)

theorem get_fundamentals_attributes_witness:
  "ticker_info example_source ''BBB'' =
     Inr \<lparr> info_longName = Some ''Beta'', info_marketCap = Some 50,
           info_trailingPE = Some 10, info_trailingEps = Some 2,
           info_dividendYield = Some (1 / 2), info_debtToEquity = Some (12345 / 1000) \<rparr> \<and>
   (\<exists>f. get_fundamentals example_source ''BBB'' = Some f \<and>
        longName f = Some ''Beta'' \<and> carries (Some 50) (marketCap f) \<and>
        carries (Some 10) (peRatio f) \<and> carries (Some 2) (eps f) \<and>
        carries (Some (1 / 2)) (dividendYield f) \<and>
        carries (Some (12345 / 1000)) (debtToEquity f)) \<and>
   ticker_info example_source ''ZZZ'' = Inl FetchError \<and>
   get_fundamentals example_source ''ZZZ'' = None"
proof -
  have b: "ticker_info example_source ''BBB'' =
     Inr \<lparr> info_longName = Some ''Beta'', info_marketCap = Some 50,
           info_trailingPE = Some 10, info_trailingEps = Some 2,
           info_dividendYield = Some (1 / 2), info_debtToEquity = Some (12345 / 1000) \<rparr>"
    by (simp add: example_source_def example_info_def)
  have z: "ticker_info example_source ''ZZZ'' = Inl FetchError"
    by (simp add: example_source_def example_info_def)
  show ?thesis
    using get_fundamentals_attributes [of example_source "''BBB''"
        "\<lparr> info_longName = Some ''Beta'', info_marketCap = Some 50,
           info_trailingPE = Some 10, info_trailingEps = Some 2,
           info_dividendYield = Some (1 / 2), info_debtToEquity = Some (12345 / 1000) \<rparr>"]
      get_fundamentals_attributes [of example_source "''ZZZ''"] b z
    by simp
qed

text \<open>
  C3 as stated fails on an attribute that is present with the value zero: the earnings
  per share of \<open>AAA\<close> are fetched as 0 and returned as null.
\<close>

theorem get_fundamentals_zero_counterexample:
  "ticker_info example_source ''AAA'' =
     Inr \<lparr> info_longName = Some ''Alpha'', info_marketCap = Some 100,
           info_trailingPE = Some (- 5), info_trailingEps = Some 0,
           info_dividendYield = None, info_debtToEquity = Some (12345 / 1000) \<rparr> \<and>
   get_fundamentals example_source ''AAA'' =
     Some \<lparr> longName = Some ''Alpha'', marketCap = Some (Fin 100),
            peRatio = Some (Fin (- 5)), eps = None,
            dividendYield = None, debtToEquity = Some (Fin (12345 / 1000)) \<rparr>"
  by (simp add: get_fundamentals_def get_fundamentals_try_def except_None_def
      float_if_truthy_def example_source_def example_info_def)

lemma round_half_even_error: "\<bar>of_int (round_half_even y) - y\<bar> \<le> 1 / 2"
proof -
  have "of_int \<lfloor>y\<rfloor> \<le> y" "y < of_int \<lfloor>y\<rfloor> + 1" by linarith+
  then show ?thesis
    by (auto simp: round_half_even_def Let_def abs_le_iff)
qed

lemma round2_error: "\<bar>round2 x - x\<bar> \<le> 1 / 200"
proof -
  have "\<bar>of_int (round_half_even (x * 100)) - x * 100\<bar> \<le> 1 / 2"
    by (rule round_half_even_error)
  then show ?thesis by (simp add: round2_def abs_le_iff field_simps)
qed

lemma get_return_value:
  assumes "download src t p = Inr (Some closes)" "closes \<noteq> []" "hd closes \<noteq> 0"
  shows "get_return src t p =
    Some (Fin (round2 ((last closes - hd closes) / hd closes * 100)))"
  using assms
  by (simp add: get_return_def get_return_try_def except_None_def fdiv_def Let_def)

lemma get_max_min_value:
  assumes "download src t p = Inr (Some closes)" "closes \<noteq> []"
  shows "get_max_min src t p =
    Some \<lparr> mm_max = Fin (round2 (Max (set closes))),
           mm_min = Fin (round2 (Min (set closes))) \<rparr>"
  using assms
  by (simp add: get_max_min_def get_max_min_try_def except_None_def)

lemma example_info_simps:
  "ticker_info example_source ''BBB'' =
     Inr \<lparr> info_longName = Some ''Beta'', info_marketCap = Some 50,
           info_trailingPE = Some 10, info_trailingEps = Some 2,
           info_dividendYield = Some (1 / 2), info_debtToEquity = Some (12345 / 1000) \<rparr>"
  "ticker_info example_source ''ZZZ'' = Inl FetchError"
  by (simp_all add: example_source_def example_info_def)

text \<open>
  C4, as the code has it. The number that \<^verbatim>\<open>get_return\<close>,
  \<^verbatim>\<open>get_volatility\<close> and \<^verbatim>\<open>get_max_min\<close> return is the metric rounded to
  2 decimal places: the percentage return, the annualized volatility in percent, and the
  highest and lowest close, each passed through \<open>round2\<close>, whose value has at most two
  decimal places and lies within 0.005 of its argument. Every finite number these three
  resolvers return has at most two decimal places. \<^verbatim>\<open>get_fundamentals\<close> does not
  round: each numeric attribute that is fetched with a nonzero value is returned with
  exactly that value.
\<close>

theorem resolver_rounding:
  "(download src t p = Inr (Some closes) \<and> closes \<noteq> [] \<and> hd closes \<noteq> 0 \<longrightarrow>
      get_return src t p =
        Some (Fin (round2 ((last closes - hd closes) / hd closes * 100)))) \<and>
   (download src t p = Inr (Some closes) \<and> 3 \<le> length closes \<and>
      (\<forall>c\<in>set (butlast closes). c \<noteq> 0) \<longrightarrow>
      get_volatility src t p =
        Some (Fin (round2 (sample_std (spec_changes closes) * sqrt 252 * 100)))) \<and>
   (download src t p = Inr (Some closes) \<and> closes \<noteq> [] \<longrightarrow>
      get_max_min src t p =
        Some \<lparr> mm_max = Fin (round2 (Max (set closes))),
               mm_min = Fin (round2 (Min (set closes))) \<rparr>) \<and>
   \<bar>round2 v - v\<bar> \<le> 1 / 200 \<and> two_decimals (round2 v) \<and>
   (get_return src t p = Some (Fin x) \<longrightarrow> two_decimals x) \<and>
   (get_volatility src t p = Some (Fin x) \<longrightarrow> two_decimals x) \<and>
   (get_max_min src t p = Some d \<longrightarrow>
      (\<exists>a b. mm_max d = Fin a \<and> mm_min d = Fin b \<and> two_decimals a \<and> two_decimals b)) \<and>
   (ticker_info src t = Inr info \<longrightarrow>
      (\<exists>f. get_fundamentals src t = Some f \<and>
           carries (info_marketCap info) (marketCap f) \<and>
           carries (info_trailingPE info) (peRatio f) \<and>
           carries (info_trailingEps info) (eps f) \<and>
           carries (info_dividendYield info) (dividendYield f) \<and>
           carries (info_debtToEquity info) (debtToEquity f)))"
proof -
  have 1: "download src t p = Inr (Some closes) \<and> closes \<noteq> [] \<and> hd closes \<noteq> 0 \<longrightarrow>
      get_return src t p =
        Some (Fin (round2 ((last closes - hd closes) / hd closes * 100)))"
    using get_return_value [of src t p closes] by blast
  have 2: "download src t p = Inr (Some closes) \<and> 3 \<le> length closes \<and>
      (\<forall>c\<in>set (butlast closes). c \<noteq> 0) \<longrightarrow>
      get_volatility src t p =
        Some (Fin (round2 (sample_std (spec_changes closes) * sqrt 252 * 100)))"
    using get_volatility_long [of src t p closes] by (simp add: spec_volatility_def)
  have 3: "download src t p = Inr (Some closes) \<and> closes \<noteq> [] \<longrightarrow>
      get_max_min src t p =
        Some \<lparr> mm_max = Fin (round2 (Max (set closes))),
               mm_min = Fin (round2 (Min (set closes))) \<rparr>"
    using get_max_min_value [of src t p closes] by blast
  have 4: "\<bar>round2 v - v\<bar> \<le> 1 / 200 \<and> two_decimals (round2 v)"
    using round2_error [of v] two_decimals_round2 [of v] by blast
  have 5: "get_return src t p = Some (Fin x) \<longrightarrow> two_decimals x"
    using get_return_rounded [of src t p x] by blast
  have 6: "get_volatility src t p = Some (Fin x) \<longrightarrow> two_decimals x"
    using get_volatility_rounded [of src t p x] by blast
  have 7: "get_max_min src t p = Some d \<longrightarrow>
      (\<exists>a b. mm_max d = Fin a \<and> mm_min d = Fin b \<and> two_decimals a \<and> two_decimals b)"
    using get_max_min_rounded [of src t p d] by blast
  have 8: "ticker_info src t = Inr info \<longrightarrow>
      (\<exists>f. get_fundamentals src t = Some f \<and>
           carries (info_marketCap info) (marketCap f) \<and>
           carries (info_trailingPE info) (peRatio f) \<and>
           carries (info_trailingEps info) (eps f) \<and>
           carries (info_dividendYield info) (dividendYield f) \<and>
           carries (info_debtToEquity info) (debtToEquity f))"
    using get_fundamentals_carries [of src t info] by blast
  from 4 have e: "\<bar>round2 v - v\<bar> \<le> 1 / 200" and g: "two_decimals (round2 v)"
    by blast+
  from 1 2 3 e g 5 6 7 8 show ?thesis by (intro conjI)
qed

theorem resolver_rounding_witness:
  "download example_source ''FFF'' ytd = Inr (Some [3, 4]) \<and>
   (4 - 3) / 3 * 100 = (100 / 3 :: real) \<and> round2 (100 / 3) = 3333 / 100 \<and>
   \<bar>round2 (100 / 3) - 100 / 3\<bar> \<le> 1 / 200 \<and> two_decimals (3333 / 100) \<and>
   get_return example_source ''FFF'' ytd = Some (Fin (3333 / 100)) \<and>
   get_max_min example_source ''FFF'' ytd = Some \<lparr> mm_max = Fin 4, mm_min = Fin 3 \<rparr> \<and>
   download example_source ''AAA'' ytd = Inr (Some [100, 110, 121]) \<and>
   get_volatility example_source ''AAA'' ytd =
     Some (Fin (round2 (sample_std (spec_changes [100, 110, 121]) * sqrt 252 * 100))) \<and>
   ticker_info example_source ''BBB'' =
     Inr \<lparr> info_longName = Some ''Beta'', info_marketCap = Some 50,
           info_trailingPE = Some 10, info_trailingEps = Some 2,
           info_dividendYield = Some (1 / 2), info_debtToEquity = Some (12345 / 1000) \<rparr> \<and>
   (\<exists>f. get_fundamentals example_source ''BBB'' = Some f \<and>
        debtToEquity f = Some (Fin (12345 / 1000)))"
proof -
  have r: "round2 (100 / 3) = 3333 / 100"
    by (simp add: round2_def round_half_even_def)
  have m: "round2 4 = 4" "round2 3 = 3"
    by (simp_all add: round2_def round_half_even_def)
  show ?thesis
    using resolver_rounding [of example_source "''FFF''" ytd "[3, 4]" "100 / 3" "3333 / 100"
        "\<lparr> mm_max = Fin 4, mm_min = Fin 3 \<rparr>"
        "\<lparr> info_longName = Some ''Beta'', info_marketCap = Some 50,
           info_trailingPE = Some 10, info_trailingEps = Some 2,
           info_dividendYield = Some (1 / 2), info_debtToEquity = Some (12345 / 1000) \<rparr>"]
      resolver_rounding [of example_source "''AAA''" ytd "[100, 110, 121]" 0 0
        "\<lparr> mm_max = Fin 121, mm_min = Fin 100 \<rparr>"]
      resolver_rounding [of example_source "''BBB''" ytd "[50]" 0 0
        "\<lparr> mm_max = Fin 50, mm_min = Fin 50 \<rparr>"
        "\<lparr> info_longName = Some ''Beta'', info_marketCap = Some 50,
           info_trailingPE = Some 10, info_trailingEps = Some 2,
           info_dividendYield = Some (1 / 2), info_debtToEquity = Some (12345 / 1000) \<rparr>"]
    by (simp add: example_download_simps example_info_simps example_get_fundamentals r m
        two_decimals_def carries_def)
qed

text \<open>
  C4 as stated fails on \<^verbatim>\<open>get_fundamentals\<close>: the debt-to-equity ratio 12.345 of
  \<open>AAA\<close> leaves the resolver with three decimal places.
\<close>

theorem get_fundamentals_unrounded_counterexample:
  "map_option debtToEquity (get_fundamentals example_source ''AAA'') =
     Some (Some (Fin (12345 / 1000))) \<and>
   \<not> two_decimals (12345 / 1000)"
  by (simp add: example_get_fundamentals two_decimals_def)


lemma get_return_None_iff: "get_return src t p = None \<longleftrightarrow> unavailable_frame src t p"
  by (auto simp: get_return_def get_return_try_def except_None_def unavailable_frame_def
      Let_def split: sum.splits option.splits)

lemma get_volatility_unavailable_iff: "get_volatility src t p = None \<longleftrightarrow> unavailable_frame src t p"
  by (auto simp: get_volatility_def get_volatility_try_def except_None_def
      unavailable_frame_def Let_def split: sum.splits option.splits)

lemma get_max_min_None_iff: "get_max_min src t p = None \<longleftrightarrow> unavailable_frame src t p"
  by (auto simp: get_max_min_def get_max_min_try_def except_None_def unavailable_frame_def
      split: sum.splits option.splits)

lemma get_fundamentals_None_iff:
  "get_fundamentals src t = None \<longleftrightarrow> (\<exists>e. ticker_info src t = Inl e)"
  by (auto simp: get_fundamentals_def get_fundamentals_try_def except_None_def
      split: sum.splits)

lemma try_raises_iff:
  "get_return_try src t p = Inl e \<longleftrightarrow> download src t p = Inl e"
  "get_volatility_try src t p = Inl e \<longleftrightarrow> download src t p = Inl e"
  "get_max_min_try src t p = Inl e \<longleftrightarrow> download src t p = Inl e"
  "get_fundamentals_try src t = Inl e \<longleftrightarrow> ticker_info src t = Inl e"
  by (auto simp: get_return_try_def get_volatility_try_def get_max_min_try_def
      get_fundamentals_try_def Let_def split: sum.splits option.splits)

lemma get_return_zero_start:
  assumes "download src t p = Inr (Some closes)" "closes \<noteq> []" "hd closes = 0"
  shows "get_return src t p =
    Some (if 0 < last closes then PInf else if last closes < 0 then NInf else NaN)"
  using assms
  by (simp add: get_return_def get_return_try_def except_None_def fdiv_def Let_def)

lemma example_unavailable:
  "unavailable_frame example_source ''ZZZ'' p"
  "unavailable_frame example_source ''CCC'' p"
  "unavailable_frame example_source ''DDD'' p"
  "\<not> unavailable_frame example_source ''GGG'' p"
  "\<not> unavailable_frame example_source ''BBB'' p"
  by (simp_all add: unavailable_frame_def example_download_simps)

text \<open>
  C9, as the code has it. A resolver returns a value and raises nothing past its
  boundary: its body raises exactly when the fetch raises, and the handler turns that
  into null. \<^verbatim>\<open>get_return\<close>, \<^verbatim>\<open>get_volatility\<close> and \<^verbatim>\<open>get_max_min\<close>
  return null exactly when the download raises, the frame has no Close column or the
  series is empty; \<^verbatim>\<open>get_fundamentals\<close> returns null exactly when its fetch raises.
  A computation that is undefined on the fetched data raises nothing and is not turned
  into null: with a first closing price of zero \<^verbatim>\<open>get_return\<close> returns an
  infinity or NaN, and on a series of one or two points \<^verbatim>\<open>get_volatility\<close> returns
  NaN.
\<close>

theorem resolvers_absorb_failures:
  "(get_return src t p = None \<longleftrightarrow> unavailable_frame src t p) \<and>
   (get_volatility src t p = None \<longleftrightarrow> unavailable_frame src t p) \<and>
   (get_max_min src t p = None \<longleftrightarrow> unavailable_frame src t p) \<and>
   (get_fundamentals src t = None \<longleftrightarrow> (\<exists>e. ticker_info src t = Inl e)) \<and>
   (get_return_try src t p = Inl e \<longleftrightarrow> download src t p = Inl e) \<and>
   (get_volatility_try src t p = Inl e \<longleftrightarrow> download src t p = Inl e) \<and>
   (get_max_min_try src t p = Inl e \<longleftrightarrow> download src t p = Inl e) \<and>
   (get_fundamentals_try src t = Inl e \<longleftrightarrow> ticker_info src t = Inl e) \<and>
   (download src t p = Inr (Some closes) \<and> closes \<noteq> [] \<and> hd closes = 0 \<longrightarrow>
      get_return src t p =
        Some (if 0 < last closes then PInf else if last closes < 0 then NInf else NaN)) \<and>
   (download src t p = Inr (Some closes) \<and> closes \<noteq> [] \<and> length closes < 3 \<longrightarrow>
      get_volatility src t p = Some NaN)"
proof (intro conjI)
  show "download src t p = Inr (Some closes) \<and> closes \<noteq> [] \<and> hd closes = 0 \<longrightarrow>
      get_return src t p =
        Some (if 0 < last closes then PInf else if last closes < 0 then NInf else NaN)"
    using get_return_zero_start [of src t p closes] by blast
  show "download src t p = Inr (Some closes) \<and> closes \<noteq> [] \<and> length closes < 3 \<longrightarrow>
      get_volatility src t p = Some NaN"
    using get_volatility_short [of src t p closes] by blast
qed (simp_all only: get_return_None_iff get_volatility_unavailable_iff get_max_min_None_iff
    get_fundamentals_None_iff try_raises_iff)

theorem resolvers_absorb_failures_witness:
  "download example_source ''ZZZ'' ytd = Inl FetchError \<and>
   unavailable_frame example_source ''ZZZ'' ytd \<and>
   get_return_try example_source ''ZZZ'' ytd = Inl FetchError \<and>
   get_return example_source ''ZZZ'' ytd = None \<and>
   get_volatility example_source ''ZZZ'' ytd = None \<and>
   get_max_min example_source ''ZZZ'' ytd = None \<and>
   download example_source ''CCC'' ytd = Inr (Some []) \<and>
   get_return example_source ''CCC'' ytd = None \<and>
   get_volatility example_source ''CCC'' ytd = None \<and>
   get_max_min example_source ''CCC'' ytd = None \<and>
   download example_source ''DDD'' ytd = Inr None \<and>
   get_return example_source ''DDD'' ytd = None \<and>
   get_volatility example_source ''DDD'' ytd = None \<and>
   get_max_min example_source ''DDD'' ytd = None \<and>
   ticker_info example_source ''ZZZ'' = Inl FetchError \<and>
   get_fundamentals example_source ''ZZZ'' = None \<and>
   download example_source ''GGG'' ytd = Inr (Some [0, 5]) \<and>
   hd [0, 5 :: real] = 0 \<and> 0 < last [0, 5 :: real] \<and>
   get_return example_source ''GGG'' ytd = Some PInf \<and>
   download example_source ''BBB'' ytd = Inr (Some [50]) \<and>
   get_volatility example_source ''BBB'' ytd = Some NaN"
  using resolvers_absorb_failures [of example_source "''ZZZ''" ytd FetchError "[]"]
    resolvers_absorb_failures [of example_source "''CCC''" ytd FetchError "[]"]
    resolvers_absorb_failures [of example_source "''DDD''" ytd FetchError "[]"]
    resolvers_absorb_failures [of example_source "''GGG''" ytd FetchError "[0, 5]"]
    resolvers_absorb_failures [of example_source "''BBB''" ytd FetchError "[50]"]
  by (simp add: example_download_simps example_unavailable example_info_simps)

text \<open>
  C9 as stated fails on a computation error: the series of \<open>GGG\<close> starts with the
  price 0, the division by it gives infinity, and \<^verbatim>\<open>get_return\<close> returns that
  float, not null.
\<close>

theorem get_return_zero_start_counterexample:
  "download example_source ''GGG'' ytd = Inr (Some [0, 5]) \<and>
   get_return example_source ''GGG'' ytd = Some PInf"
  by (simp add: get_return_def get_return_try_def except_None_def example_download_simps
      fdiv_def)

text \<open>
  C10. On a series of exactly one point with a nonzero closing price,
  \<^verbatim>\<open>get_return\<close> returns 0.0 and not null.
\<close>

theorem get_return_single_point:
  assumes "download src ticker period = Inr (Some [c])" and "c \<noteq> 0"
  shows "get_return src ticker period = Some (Fin 0)"
  using assms
  by (simp add: get_return_def get_return_try_def except_None_def fdiv_def round2_def
      round_half_even_zero)

theorem get_return_single_point_witness:
  "download example_source ''BBB'' ytd = Inr (Some [50]) \<and> (50::real) \<noteq> 0 \<and>
   get_return example_source ''BBB'' ytd = Some (Fin 0)"
  using get_return_single_point [of example_source "''BBB''" ytd 50]
  by (simp add: example_source_def example_download_def)

section \<open>Properties of the comparators\<close>

lemma flt_irrefl: "\<not> flt a a"
  by (cases a) simp_all

lemma flt_trans: "flt a b \<Longrightarrow> flt b c \<Longrightarrow> flt a c"
  by (cases a; cases b; cases c) simp_all

lemma fgt_irrefl: "\<not> fgt a a"
  by (simp add: fgt_def flt_irrefl)

lemma fgt_trans: "fgt a b \<Longrightarrow> fgt b c \<Longrightarrow> fgt a c"
  unfolding fgt_def by (rule flt_trans)

lemma strict_order_flt: "strict_order flt"
  unfolding strict_order_def using flt_irrefl flt_trans by blast

lemma strict_order_fgt: "strict_order fgt"
  unfolding strict_order_def using fgt_irrefl fgt_trans by blast

lemma py_best_from_inv:
  assumes so: "strict_order better"
  shows "py_best_from better best rest = (w, v) \<Longrightarrow>
     ((w, v) = best \<or>
      (better v (snd best) \<and>
       (\<exists>pre post. rest = pre @ (w, v) # post \<and> (\<forall>e\<in>set pre. snd e \<noteq> v)))) \<and>
     (\<forall>e\<in>set rest. \<not> better (snd e) v)"
proof (induction rest arbitrary: best)
  case Nil
  then show ?case by simp
next
  case (Cons item rest)
  have irr: "\<And>a. \<not> better a a" and tr: "\<And>a b c. better a b \<Longrightarrow> better b c \<Longrightarrow> better a c"
    using so unfolding strict_order_def by blast+
  show ?case
  proof (cases "better (snd item) (snd best)")
    case True
    with Cons.prems have r: "py_best_from better item rest = (w, v)" by simp
    note ih = Cons.IH [OF r]
    from ih have nb: "\<forall>e\<in>set rest. \<not> better (snd e) v" by blast
    from ih consider (same) "(w, v) = item"
      | (later) "better v (snd item)"
          "\<exists>pre post. rest = pre @ (w, v) # post \<and> (\<forall>e\<in>set pre. snd e \<noteq> v)"
      by blast
    then show ?thesis
    proof cases
      case same
      then have sv: "snd item = v" by auto
      have "item # rest = [] @ (w, v) # rest" using same by simp
      moreover have "better v (snd best)" using True sv by simp
      moreover have "\<not> better (snd item) v" using sv irr by simp
      ultimately show ?thesis using nb by fastforce
    next
      case later
      then obtain pre post where d: "rest = pre @ (w, v) # post"
        and pv: "\<forall>e\<in>set pre. snd e \<noteq> v" by blast
      have iv: "snd item \<noteq> v" using later(1) irr by auto
      have "item # rest = (item # pre) @ (w, v) # post" using d by simp
      moreover have "\<forall>e\<in>set (item # pre). snd e \<noteq> v" using pv iv by simp
      moreover have "better v (snd best)" using later(1) True tr by blast
      moreover have "\<not> better (snd item) v" using later(1) irr tr by blast
      ultimately show ?thesis using nb by (metis set_ConsD)
    qed
  next
    case False
    with Cons.prems have r: "py_best_from better best rest = (w, v)" by simp
    note ih = Cons.IH [OF r]
    from ih have nb: "\<forall>e\<in>set rest. \<not> better (snd e) v" by blast
    from ih consider (same) "(w, v) = best"
      | (later) "better v (snd best)"
          "\<exists>pre post. rest = pre @ (w, v) # post \<and> (\<forall>e\<in>set pre. snd e \<noteq> v)"
      by blast
    then show ?thesis
    proof cases
      case same
      then have "snd best = v" by auto
      then have "\<not> better (snd item) v" using False by simp
      then show ?thesis using same nb by simp
    next
      case later
      then obtain pre post where d: "rest = pre @ (w, v) # post"
        and pv: "\<forall>e\<in>set pre. snd e \<noteq> v" by blast
      have iv: "snd item \<noteq> v" using later(1) False by auto
      have ni: "\<not> better (snd item) v" using later(1) False tr by blast
      have "item # rest = (item # pre) @ (w, v) # post" using d by simp
      moreover have "\<forall>e\<in>set (item # pre). snd e \<noteq> v" using pv iv by simp
      ultimately show ?thesis using nb ni later(1) by (metis set_ConsD)
    qed
  qed
qed

lemma py_best_from_first:
  assumes "strict_order better" "py_best_from better first rest = (w, v)"
  shows "(\<exists>pre post. first # rest = pre @ (w, v) # post \<and> (\<forall>e\<in>set pre. snd e \<noteq> v)) \<and>
         (\<forall>e\<in>set (first # rest). \<not> better (snd e) v)"
proof -
  have irr: "\<And>a. \<not> better a a" and tr: "\<And>a b c. better a b \<Longrightarrow> better b c \<Longrightarrow> better a c"
    using assms(1) unfolding strict_order_def by blast+
  note inv = py_best_from_inv [OF assms]
  from inv have nb: "\<forall>e\<in>set rest. \<not> better (snd e) v" by blast
  from inv consider (same) "(w, v) = first"
    | (later) "better v (snd first)"
        "\<exists>pre post. rest = pre @ (w, v) # post \<and> (\<forall>e\<in>set pre. snd e \<noteq> v)"
    by blast
  then show ?thesis
  proof cases
    case same
    then have "snd first = v" by auto
    then have "\<not> better (snd first) v" using irr by simp
    moreover have "first # rest = [] @ (w, v) # rest" using same by simp
    ultimately show ?thesis using nb by fastforce
  next
    case later
    then obtain pre post where d: "rest = pre @ (w, v) # post"
      and pv: "\<forall>e\<in>set pre. snd e \<noteq> v" by blast
    have fv: "snd first \<noteq> v" using later(1) irr by auto
    have nf: "\<not> better (snd first) v" using later(1) irr tr by blast
    have "first # rest = (first # pre) @ (w, v) # post" using d by simp
    moreover have "\<forall>e\<in>set (first # pre). snd e \<noteq> v" using pv fv by simp
    ultimately show ?thesis using nb nf by (metis set_ConsD)
  qed
qed

lemma dict_set_same: "map_of d k = Some v \<Longrightarrow> dict_set d k v = d"
  by (induction d) (auto split: if_splits)

lemma dict_set_new: "map_of d k = None \<Longrightarrow> dict_set d k v = d @ [(k, v)]"
  by (induction d) (auto split: if_splits)

lemma collect_available_Nil: "collect_available f [] = []"
  by (simp add: collect_available_def)

lemma collect_available_step:
  "collect_available f (ts @ [t]) =
     (case f t of None \<Rightarrow> collect_available f ts
      | Some r \<Rightarrow> dict_set (collect_available f ts) t r)"
  by (simp add: collect_available_def split: option.splits)

lemma map_of_dict_set: "map_of (dict_set d k v) k' = (if k' = k then Some v else map_of d k')"
  by (induction d) auto

lemma map_of_collect_available:
  "map_of (collect_available f ts) t = (if t \<in> set ts then f t else None)"
proof (induction ts rule: rev_induct)
  case Nil
  then show ?case by (simp add: collect_available_Nil)
next
  case (snoc x xs)
  then show ?case
    by (cases "f x") (auto simp: collect_available_step map_of_dict_set)
qed

lemma collect_available_snoc:
  "collect_available f (ts @ [t]) =
     (if t \<in> set ts then collect_available f ts
      else case f t of None \<Rightarrow> collect_available f ts
           | Some r \<Rightarrow> collect_available f ts @ [(t, r)])"
proof (cases "f t")
  case None
  then show ?thesis by (simp add: collect_available_step)
next
  case (Some r)
  show ?thesis
  proof (cases "t \<in> set ts")
    case True
    then have "map_of (collect_available f ts) t = Some r"
      using Some by (simp add: map_of_collect_available)
    then show ?thesis using Some True by (simp add: collect_available_step dict_set_same)
  next
    case False
    then have "map_of (collect_available f ts) t = None"
      by (simp add: map_of_collect_available)
    then show ?thesis using Some False by (simp add: collect_available_step dict_set_new)
  qed
qed

lemma distinct_collect_available: "distinct (map fst (collect_available f ts))"
proof (induction ts rule: rev_induct)
  case Nil
  then show ?case by (simp add: collect_available_Nil)
next
  case (snoc x xs)
  have "f x = Some r \<Longrightarrow> x \<notin> set xs \<Longrightarrow> x \<notin> fst ` set (collect_available f xs)" for r
    using map_of_collect_available [of f xs x] by (simp add: map_of_eq_None_iff)
  with snoc show ?case
    by (auto simp: collect_available_snoc split: option.splits)
qed

lemma set_collect_available:
  "(t, r) \<in> set (collect_available f ts) \<longleftrightarrow> t \<in> set ts \<and> f t = Some r"
  using map_of_collect_available [of f ts t] distinct_collect_available [of f ts]
  by (auto simp: map_of_eq_Some_iff split: if_splits)

lemma collect_available_empty_iff:
  "collect_available f ts = [] \<longleftrightarrow> (\<forall>t\<in>set ts. f t = None)"
proof
  assume e: "collect_available f ts = []"
  show "\<forall>t\<in>set ts. f t = None"
  proof
    fix t assume "t \<in> set ts"
    then have "f t = map_of (collect_available f ts) t" by (simp add: map_of_collect_available)
    then show "f t = None" using e by simp
  qed
next
  assume a: "\<forall>t\<in>set ts. f t = None"
  show "collect_available f ts = []"
  proof (cases "collect_available f ts")
    case Nil
    then show ?thesis .
  next
    case (Cons e es)
    then have "(fst e, snd e) \<in> set (collect_available f ts)" by simp
    then have "fst e \<in> set ts \<and> f (fst e) = Some (snd e)"
      by (simp only: set_collect_available)
    then show ?thesis using a by auto
  qed
qed

lemma find_append:
  "find P (xs @ ys) = (case find P xs of None \<Rightarrow> find P ys | Some x \<Rightarrow> Some x)"
  by (induction xs) auto

lemma collect_available_first:
  "collect_available f ts = pre @ (w, v) # post \<Longrightarrow> \<forall>e\<in>set pre. snd e \<noteq> v \<Longrightarrow>
   find (\<lambda>t. f t = Some v) ts = Some w"
proof (induction ts arbitrary: post rule: rev_induct)
  case Nil
  then show ?case by (simp add: collect_available_Nil)
next
  case (snoc x xs)
  show ?case
  proof (cases "x \<in> set xs \<or> f x = None")
    case True
    then have "collect_available f (xs @ [x]) = collect_available f xs"
      by (auto simp: collect_available_snoc)
    with snoc.prems have "collect_available f xs = pre @ (w, v) # post" by simp
    from snoc.IH [OF this snoc.prems(2)] show ?thesis by (simp add: find_append)
  next
    case False
    then obtain r where r: "f x = Some r" and nx: "x \<notin> set xs" by auto
    then have c: "collect_available f (xs @ [x]) = collect_available f xs @ [(x, r)]"
      by (simp add: collect_available_snoc)
    show ?thesis
    proof (cases post rule: rev_cases)
      case Nil
      with snoc.prems(1) c have eq: "collect_available f xs = pre" "(w, v) = (x, r)" by auto
      have "find (\<lambda>t. f t = Some v) xs = None"
      proof -
        have "\<not> (\<exists>t. t \<in> set xs \<and> f t = Some v)"
        proof
          assume "\<exists>t. t \<in> set xs \<and> f t = Some v"
          then obtain t where "t \<in> set xs" "f t = Some v" by blast
          then have "(t, v) \<in> set pre" using eq(1) set_collect_available [of t v f xs] by simp
          then show False using snoc.prems(2) by force
        qed
        then show ?thesis by (simp add: find_None_iff)
      qed
      then show ?thesis using eq(2) r by (simp add: find_append)
    next
      case (snoc post' l)
      with snoc.prems(1) c have "collect_available f xs = pre @ (w, v) # post'" by simp
      from snoc.IH [OF this snoc.prems(2)] show ?thesis by (simp add: find_append)
    qed
  qed
qed

lemma best_of_collect:
  assumes so: "strict_order better"
    and c: "collect_available f ts = first # rest"
    and b: "py_best_from better first rest = (w, v)"
  shows "w \<in> set ts \<and> f w = Some v \<and> find (\<lambda>t. f t = Some v) ts = Some w \<and>
         (\<forall>t\<in>set ts. \<forall>r. f t = Some r \<longrightarrow> \<not> better r v)"
proof -
  from py_best_from_first [OF so b] obtain pre post
    where d: "first # rest = pre @ (w, v) # post" and pv: "\<forall>e\<in>set pre. snd e \<noteq> v"
      and nb: "\<forall>e\<in>set (first # rest). \<not> better (snd e) v" by blast
  have "(w, v) \<in> set (collect_available f ts)" using c d by simp
  then have 1: "w \<in> set ts \<and> f w = Some v" by (simp add: set_collect_available)
  have 2: "find (\<lambda>t. f t = Some v) ts = Some w"
    using collect_available_first [of f ts pre w v post] c d pv by simp
  have 3: "\<forall>t\<in>set ts. \<forall>r. f t = Some r \<longrightarrow> \<not> better r v"
  proof (intro ballI allI impI)
    fix t r assume "t \<in> set ts" "f t = Some r"
    then have "(t, r) \<in> set (first # rest)" using c set_collect_available [of t r f ts] by simp
    then show "\<not> better r v" using nb by force
  qed
  from 1 2 3 show ?thesis by blast
qed

lemma collect_best:
  assumes so: "strict_order better"
  shows "((\<forall>t\<in>set ts. h t = None) \<longrightarrow> collect_available h ts = []) \<and>
     ((\<exists>t\<in>set ts. h t \<noteq> None) \<longrightarrow>
        (\<exists>first rest w v. collect_available h ts = first # rest \<and>
           py_best_from better first rest = (w, v) \<and>
           w \<in> set ts \<and> h w = Some v \<and> find (\<lambda>t. h t = Some v) ts = Some w \<and>
           (\<forall>t\<in>set ts. \<forall>r. h t = Some r \<longrightarrow> \<not> better r v)))"
proof (intro conjI impI)
  assume "\<forall>t\<in>set ts. h t = None"
  then show "collect_available h ts = []" by (simp add: collect_available_empty_iff)
next
  assume "\<exists>t\<in>set ts. h t \<noteq> None"
  then have "collect_available h ts \<noteq> []" by (simp add: collect_available_empty_iff)
  then obtain first rest where c: "collect_available h ts = first # rest"
    by (cases "collect_available h ts") auto
  obtain w v where b: "py_best_from better first rest = (w, v)"
    by (cases "py_best_from better first rest") auto
  from best_of_collect [OF so c b] c b
  show "\<exists>first rest w v. collect_available h ts = first # rest \<and>
           py_best_from better first rest = (w, v) \<and>
           w \<in> set ts \<and> h w = Some v \<and> find (\<lambda>t. h t = Some v) ts = Some w \<and>
           (\<forall>t\<in>set ts. \<forall>r. h t = Some r \<longrightarrow> \<not> better r v)"
    by blast
qed

lemma map_collect_available:
  "map (\<lambda>(t, d). (t, g d)) (collect_available f ts) = collect_available (\<lambda>t. map_option g (f t)) ts"
proof (induction ts rule: rev_induct)
  case Nil
  then show ?case by (simp add: collect_available_Nil)
next
  case (snoc x xs)
  then show ?case by (cases "f x") (simp_all add: collect_available_snoc)
qed

lemma select_attr_append:
  "select_attr attr test (ys @ zs) = select_attr attr test ys @ select_attr attr test zs"
  by (simp add: select_attr_def List.map_filter_def)

lemma select_attr_single:
  "select_attr attr test [(t, d)] =
     (case attr d of None \<Rightarrow> [] | Some v \<Rightarrow> if test v then [(t, v)] else [])"
  by (simp add: select_attr_def List.map_filter_simps split: option.splits)

lemma select_attr_Nil: "select_attr attr test [] = []"
  by (simp add: select_attr_def List.map_filter_simps)

lemma select_attr_collect_available:
  "select_attr attr test (collect_available f ts) =
     collect_available
       (\<lambda>t. case f t of None \<Rightarrow> None
             | Some d \<Rightarrow> (case attr d of None \<Rightarrow> None
                          | Some v \<Rightarrow> if test v then Some v else None)) ts"
proof (induction ts rule: rev_induct)
  case Nil
  then show ?case by (simp add: collect_available_Nil select_attr_Nil)
next
  case (snoc x xs)
  then show ?case
    by (cases "f x")
      (auto simp: collect_available_snoc select_attr_append select_attr_single
        split: option.splits)
qed

lemma py_get_float_dict: "py_get (float_dict d) t = map_option PFloat (map_of d t)"
  by (simp add: float_dict_def map_of_map)

lemma py_get_map_dict:
  "py_get (PDict (map (\<lambda>(t, d). (t, g d)) items)) t = map_option g (map_of items t)"
  by (simp add: map_of_map)

lemma compare_returns_nodata:
  "\<forall>t\<in>set ts. get_return src t p = None \<Longrightarrow>
   compare_returns src ts p = PDict [(''error'', PStr ''No data available for tickers'')]"
  using collect_best [OF strict_order_fgt, of ts "\<lambda>t. get_return src t p"]
  by (simp add: compare_returns_def)

lemma compare_returns_ranking:
  assumes "\<exists>t\<in>set ts. get_return src t p \<noteq> None"
  shows "\<exists>w v. compare_returns src ts p =
            PDict [(''best_ticker'', PStr w), (''best_return'', PFloat v),
                   (''all_returns'',
                      float_dict (collect_available (\<lambda>t. get_return src t p) ts))] \<and>
          w \<in> set ts \<and> get_return src w p = Some v \<and>
          find (\<lambda>t. get_return src t p = Some v) ts = Some w \<and>
          (\<forall>t\<in>set ts. \<forall>r. get_return src t p = Some r \<longrightarrow> \<not> fgt r v)"
proof -
  from collect_best [OF strict_order_fgt, of ts "\<lambda>t. get_return src t p"] assms
  obtain first rest w v where
    c: "collect_available (\<lambda>t. get_return src t p) ts = first # rest"
    and b: "py_best_from fgt first rest = (w, v)"
    and r: "w \<in> set ts" "get_return src w p = Some v"
      "find (\<lambda>t. get_return src t p = Some v) ts = Some w"
      "\<forall>t\<in>set ts. \<forall>r. get_return src t p = Some r \<longrightarrow> \<not> fgt r v"
    by blast
  have "compare_returns src ts p =
            PDict [(''best_ticker'', PStr w), (''best_return'', PFloat v),
                   (''all_returns'',
                      float_dict (collect_available (\<lambda>t. get_return src t p) ts))]"
    using c b by (simp add: compare_returns_def py_max_from_def)
  with r show ?thesis by blast
qed

lemma compare_volatility_nodata:
  "\<forall>t\<in>set ts. get_volatility src t p = None \<Longrightarrow>
   compare_volatility src ts p =
     PDict [(''error'', PStr ''No volatility data available for tickers'')]"
  using collect_best [OF strict_order_fgt, of ts "\<lambda>t. get_volatility src t p"]
  by (simp add: compare_volatility_def)

lemma compare_volatility_ranking:
  assumes "\<exists>t\<in>set ts. get_volatility src t p \<noteq> None"
  shows "\<exists>lw lv mw mv. compare_volatility src ts p =
            PDict [(''least_volatile'', PStr lw), (''least_volatility'', PFloat lv),
                   (''most_volatile'', PStr mw), (''most_volatility'', PFloat mv),
                   (''all_volatilities'',
                      float_dict (collect_available (\<lambda>t. get_volatility src t p) ts))] \<and>
          lw \<in> set ts \<and> get_volatility src lw p = Some lv \<and>
          find (\<lambda>t. get_volatility src t p = Some lv) ts = Some lw \<and>
          (\<forall>t\<in>set ts. \<forall>r. get_volatility src t p = Some r \<longrightarrow> \<not> flt r lv) \<and>
          mw \<in> set ts \<and> get_volatility src mw p = Some mv \<and>
          find (\<lambda>t. get_volatility src t p = Some mv) ts = Some mw \<and>
          (\<forall>t\<in>set ts. \<forall>r. get_volatility src t p = Some r \<longrightarrow> \<not> fgt r mv)"
proof -
  let ?h = "\<lambda>t. get_volatility src t p"
  from collect_best [OF strict_order_fgt, of ts ?h] assms
  obtain first rest mw mv where
    c: "collect_available ?h ts = first # rest"
    and b: "py_best_from fgt first rest = (mw, mv)"
    and r: "mw \<in> set ts" "?h mw = Some mv" "find (\<lambda>t. ?h t = Some mv) ts = Some mw"
      "\<forall>t\<in>set ts. \<forall>r. ?h t = Some r \<longrightarrow> \<not> fgt r mv"
    by blast
  from collect_best [OF strict_order_flt, of ts ?h] assms c
  obtain lw lv where
    b': "py_best_from flt first rest = (lw, lv)"
    and r': "lw \<in> set ts" "?h lw = Some lv" "find (\<lambda>t. ?h t = Some lv) ts = Some lw"
      "\<forall>t\<in>set ts. \<forall>r. ?h t = Some r \<longrightarrow> \<not> flt r lv"
    by auto
  have "compare_volatility src ts p =
            PDict [(''least_volatile'', PStr lw), (''least_volatility'', PFloat lv),
                   (''most_volatile'', PStr mw), (''most_volatility'', PFloat mv),
                   (''all_volatilities'', float_dict (collect_available ?h ts))]"
    using c b b' by (simp add: compare_volatility_def py_max_from_def py_min_from_def)
  with r r' show ?thesis by blast
qed

lemma compare_max_min_nodata:
  "\<forall>t\<in>set ts. get_max_min src t p = None \<Longrightarrow>
   compare_max_min src ts p =
     PDict [(''error'', PStr ''No max/min data available for tickers'')]"
  using collect_available_empty_iff [of "\<lambda>t. get_max_min src t p" ts]
  by (simp add: compare_max_min_def)

lemma compare_max_min_ranking:
  assumes "\<exists>t\<in>set ts. get_max_min src t p \<noteq> None"
  shows "\<exists>hw hv lw lv. compare_max_min src ts p =
            PDict [(''highest_max'', winner_py (hw, hv)),
                   (''lowest_min'', winner_py (lw, lv)),
                   (''all_data'',
                      PDict (map (\<lambda>(t, data). (t, max_min_py data))
                        (collect_available (\<lambda>t. get_max_min src t p) ts)))] \<and>
          hw \<in> set ts \<and> map_option mm_max (get_max_min src hw p) = Some hv \<and>
          find (\<lambda>t. map_option mm_max (get_max_min src t p) = Some hv) ts = Some hw \<and>
          (\<forall>t\<in>set ts. \<forall>r. map_option mm_max (get_max_min src t p) = Some r \<longrightarrow> \<not> fgt r hv) \<and>
          lw \<in> set ts \<and> map_option mm_min (get_max_min src lw p) = Some lv \<and>
          find (\<lambda>t. map_option mm_min (get_max_min src t p) = Some lv) ts = Some lw \<and>
          (\<forall>t\<in>set ts. \<forall>r. map_option mm_min (get_max_min src t p) = Some r \<longrightarrow> \<not> flt r lv)"
proof -
  let ?f = "\<lambda>t. get_max_min src t p"
  let ?hmax = "\<lambda>t. map_option mm_max (?f t)"
  let ?hmin = "\<lambda>t. map_option mm_min (?f t)"
  have ne: "collect_available ?f ts \<noteq> []"
    using assms by (simp add: collect_available_empty_iff)
  have emax: "\<exists>t\<in>set ts. ?hmax t \<noteq> None" and emin: "\<exists>t\<in>set ts. ?hmin t \<noteq> None"
    using assms by auto
  from collect_best [OF strict_order_fgt, of ts ?hmax] emax
  obtain f1 r1 hw hv where
    c1: "collect_available ?hmax ts = f1 # r1"
    and b1: "py_best_from fgt f1 r1 = (hw, hv)"
    and p1: "hw \<in> set ts" "?hmax hw = Some hv" "find (\<lambda>t. ?hmax t = Some hv) ts = Some hw"
      "\<forall>t\<in>set ts. \<forall>r. ?hmax t = Some r \<longrightarrow> \<not> fgt r hv"
    by blast
  from collect_best [OF strict_order_flt, of ts ?hmin] emin
  obtain f2 r2 lw lv where
    c2: "collect_available ?hmin ts = f2 # r2"
    and b2: "py_best_from flt f2 r2 = (lw, lv)"
    and p2: "lw \<in> set ts" "?hmin lw = Some lv" "find (\<lambda>t. ?hmin t = Some lv) ts = Some lw"
      "\<forall>t\<in>set ts. \<forall>r. ?hmin t = Some r \<longrightarrow> \<not> flt r lv"
    by blast
  have m1: "map (\<lambda>(t, data). (t, mm_max data)) (collect_available ?f ts) = f1 # r1"
    using c1 by (simp add: map_collect_available)
  have m2: "map (\<lambda>(t, data). (t, mm_min data)) (collect_available ?f ts) = f2 # r2"
    using c2 by (simp add: map_collect_available)
  have "compare_max_min src ts p =
            PDict [(''highest_max'', winner_py (hw, hv)),
                   (''lowest_min'', winner_py (lw, lv)),
                   (''all_data'',
                      PDict (map (\<lambda>(t, data). (t, max_min_py data))
                        (collect_available ?f ts)))]"
    using ne m1 m2 b1 b2
    by (simp add: compare_max_min_def Let_def py_max_from_def py_min_from_def)
  with p1 p2 show ?thesis by blast
qed

lemma float_if_truthy_Fin: "float_if_truthy x = Some r \<Longrightarrow> \<exists>y. r = Fin y"
  by (auto simp: float_if_truthy_def split: option.splits if_splits)

lemma fund_attr_Fin:
  assumes "fund_attr src attr t = Some r"
    and "attr = marketCap \<or> attr = peRatio \<or> attr = eps \<or> attr = dividendYield \<or>
         attr = debtToEquity"
  shows "\<exists>y. r = Fin y"
proof -
  from assms(1) obtain f where f: "get_fundamentals src t = Some f" "attr f = Some r"
    by (auto simp: fund_attr_def split: option.splits)
  from f(1) obtain info where "ticker_info src t = Inr info"
    and "f = \<lparr> longName = info_longName info,
               marketCap = float_if_truthy (info_marketCap info),
               peRatio = float_if_truthy (info_trailingPE info),
               eps = float_if_truthy (info_trailingEps info),
               dividendYield = float_if_truthy (info_dividendYield info),
               debtToEquity = float_if_truthy (info_debtToEquity info) \<rparr>"
    by (auto simp: get_fundamentals_def get_fundamentals_try_def except_None_def
        split: sum.splits)
  with f(2) assms(2) show ?thesis by (auto dest: float_if_truthy_Fin)
qed

lemma select_attr_fund:
  "select_attr attr test (collect_available (get_fundamentals src) ts) =
     collect_available
       (\<lambda>t. case fund_attr src attr t of None \<Rightarrow> None
             | Some v \<Rightarrow> if test v then Some v else None) ts"
proof -
  have "(\<lambda>t. case get_fundamentals src t of None \<Rightarrow> None
             | Some d \<Rightarrow> (case attr d of None \<Rightarrow> None
                          | Some v \<Rightarrow> if test v then Some v else None)) =
        (\<lambda>t. case fund_attr src attr t of None \<Rightarrow> None
             | Some v \<Rightarrow> if test v then Some v else None)"
    by (auto simp: fund_attr_def fun_eq_iff split: option.splits)
  then show ?thesis by (simp add: select_attr_collect_available)
qed

lemma map_of_analysis_max:
  "map_of (analysis_max name d) k =
     (if k = name then (case d of [] \<Rightarrow> None
                        | first # rest \<Rightarrow> Some (winner_py (py_best_from fgt first rest)))
      else None)"
  by (simp add: analysis_max_def py_max_from_def split: list.splits)

lemma map_of_analysis_min:
  "map_of (analysis_min name d) k =
     (if k = name then (case d of [] \<Rightarrow> None
                        | first # rest \<Rightarrow> Some (winner_py (py_best_from flt first rest)))
      else None)"
  by (simp add: analysis_min_def py_min_from_def split: list.splits)

lemma compare_fundamentals_nodata:
  "\<forall>t\<in>set ts. get_fundamentals src t = None \<Longrightarrow>
   compare_fundamentals src ts =
     PDict [(''error'', PStr ''No fundamentals data available for tickers'')]"
  using collect_available_empty_iff [of "get_fundamentals src" ts]
  by (simp add: compare_fundamentals_def)

lemma compare_fundamentals_data:
  "\<exists>t\<in>set ts. get_fundamentals src t \<noteq> None \<Longrightarrow>
   compare_fundamentals src ts =
     PDict [(''all_fundamentals'',
               PDict (map (\<lambda>(t, data). (t, fundamentals_py data))
                 (collect_available (get_fundamentals src) ts))),
            (''analysis'',
               PDict (analysis_max ''largest_market_cap''
                        (select_attr marketCap (\<lambda>v. True)
                           (collect_available (get_fundamentals src) ts))
                    @ analysis_min ''best_pe_ratio''
                        (select_attr peRatio (\<lambda>v. fgt v (Fin 0))
                           (collect_available (get_fundamentals src) ts))
                    @ analysis_max ''highest_dividend_yield''
                        (select_attr dividendYield (\<lambda>v. fgt v (Fin 0))
                           (collect_available (get_fundamentals src) ts))
                    @ analysis_min ''lowest_debt_to_equity''
                        (select_attr debtToEquity (\<lambda>v. fgt v (Fin 0))
                           (collect_available (get_fundamentals src) ts))))]"
  using collect_available_empty_iff [of "get_fundamentals src" ts]
  by (simp add: compare_fundamentals_def Let_def)

lemma analysis_path:
  "py_path (compare_fundamentals src ts) [''analysis'', ''largest_market_cap''] =
     (case select_attr marketCap (\<lambda>v. True) (collect_available (get_fundamentals src) ts) of
        [] \<Rightarrow> None
      | first # rest \<Rightarrow> Some (winner_py (py_best_from fgt first rest)))"
  "py_path (compare_fundamentals src ts) [''analysis'', ''best_pe_ratio''] =
     (case select_attr peRatio (\<lambda>v. fgt v (Fin 0))
             (collect_available (get_fundamentals src) ts) of
        [] \<Rightarrow> None
      | first # rest \<Rightarrow> Some (winner_py (py_best_from flt first rest)))"
  "py_path (compare_fundamentals src ts) [''analysis'', ''highest_dividend_yield''] =
     (case select_attr dividendYield (\<lambda>v. fgt v (Fin 0))
             (collect_available (get_fundamentals src) ts) of
        [] \<Rightarrow> None
      | first # rest \<Rightarrow> Some (winner_py (py_best_from fgt first rest)))"
  "py_path (compare_fundamentals src ts) [''analysis'', ''lowest_debt_to_equity''] =
     (case select_attr debtToEquity (\<lambda>v. fgt v (Fin 0))
             (collect_available (get_fundamentals src) ts) of
        [] \<Rightarrow> None
      | first # rest \<Rightarrow> Some (winner_py (py_best_from flt first rest)))"
proof -
  show "py_path (compare_fundamentals src ts) [''analysis'', ''largest_market_cap''] =
     (case select_attr marketCap (\<lambda>v. True) (collect_available (get_fundamentals src) ts) of
        [] \<Rightarrow> None
      | first # rest \<Rightarrow> Some (winner_py (py_best_from fgt first rest)))"
  proof (cases "\<exists>t\<in>set ts. get_fundamentals src t \<noteq> None")
    case True
    show ?thesis
      by (simp add: compare_fundamentals_data [OF True] map_of_analysis_max
          map_of_analysis_min map_add_def split: list.splits)
  next
    case False
    then have "collect_available (get_fundamentals src) ts = []"
      by (simp add: collect_available_empty_iff)
    then show ?thesis using False
      by (simp add: compare_fundamentals_nodata select_attr_Nil)
  qed
  show "py_path (compare_fundamentals src ts) [''analysis'', ''best_pe_ratio''] =
     (case select_attr peRatio (\<lambda>v. fgt v (Fin 0))
             (collect_available (get_fundamentals src) ts) of
        [] \<Rightarrow> None
      | first # rest \<Rightarrow> Some (winner_py (py_best_from flt first rest)))"
  proof (cases "\<exists>t\<in>set ts. get_fundamentals src t \<noteq> None")
    case True
    show ?thesis
      by (simp add: compare_fundamentals_data [OF True] map_of_analysis_max
          map_of_analysis_min map_add_def split: list.splits)
  next
    case False
    then have "collect_available (get_fundamentals src) ts = []"
      by (simp add: collect_available_empty_iff)
    then show ?thesis using False
      by (simp add: compare_fundamentals_nodata select_attr_Nil)
  qed
  show "py_path (compare_fundamentals src ts) [''analysis'', ''highest_dividend_yield''] =
     (case select_attr dividendYield (\<lambda>v. fgt v (Fin 0))
             (collect_available (get_fundamentals src) ts) of
        [] \<Rightarrow> None
      | first # rest \<Rightarrow> Some (winner_py (py_best_from fgt first rest)))"
  proof (cases "\<exists>t\<in>set ts. get_fundamentals src t \<noteq> None")
    case True
    show ?thesis
      by (simp add: compare_fundamentals_data [OF True] map_of_analysis_max
          map_of_analysis_min map_add_def split: list.splits)
  next
    case False
    then have "collect_available (get_fundamentals src) ts = []"
      by (simp add: collect_available_empty_iff)
    then show ?thesis using False
      by (simp add: compare_fundamentals_nodata select_attr_Nil)
  qed
  show "py_path (compare_fundamentals src ts) [''analysis'', ''lowest_debt_to_equity''] =
     (case select_attr debtToEquity (\<lambda>v. fgt v (Fin 0))
             (collect_available (get_fundamentals src) ts) of
        [] \<Rightarrow> None
      | first # rest \<Rightarrow> Some (winner_py (py_best_from flt first rest)))"
  proof (cases "\<exists>t\<in>set ts. get_fundamentals src t \<noteq> None")
    case True
    show ?thesis
      by (simp add: compare_fundamentals_data [OF True] map_of_analysis_max
          map_of_analysis_min map_add_def split: list.splits)
  next
    case False
    then have "collect_available (get_fundamentals src) ts = []"
      by (simp add: collect_available_empty_iff)
    then show ?thesis using False
      by (simp add: compare_fundamentals_nodata select_attr_Nil)
  qed
qed


lemma selected_best:
  fixes src :: source and attr :: "fundamentals \<Rightarrow> pyfloat option"
    and test :: "pyfloat \<Rightarrow> bool" and ts :: "ticker list"
    and better :: "pyfloat \<Rightarrow> pyfloat \<Rightarrow> bool"
  defines "h \<equiv> \<lambda>t. case fund_attr src attr t of None \<Rightarrow> None
                     | Some v \<Rightarrow> if test v then Some v else None"
  defines "entry \<equiv>
     (case select_attr attr test (collect_available (get_fundamentals src) ts) of
        [] \<Rightarrow> None
      | first # rest \<Rightarrow> Some (winner_py (py_best_from better first rest)))"
  assumes so: "strict_order better"
  shows "((\<forall>t\<in>set ts. h t = None) \<longrightarrow> entry = None) \<and>
     ((\<exists>t\<in>set ts. h t \<noteq> None) \<longrightarrow>
        (\<exists>w v. entry = Some (winner_py (w, v)) \<and> w \<in> set ts \<and>
           fund_attr src attr w = Some v \<and> test v \<and>
           find (\<lambda>t. fund_attr src attr t = Some v) ts = Some w \<and>
           (\<forall>t\<in>set ts. \<forall>r. fund_attr src attr t = Some r \<and> test r \<longrightarrow> \<not> better r v)))"
proof -
  have sel: "select_attr attr test (collect_available (get_fundamentals src) ts) =
      collect_available h ts"
    unfolding h_def by (rule select_attr_fund)
  have hs: "h t = Some r \<longleftrightarrow> fund_attr src attr t = Some r \<and> test r" for t r
    by (auto simp: h_def split: option.splits)
  note cb = collect_best [OF so, of ts h]
  show ?thesis
  proof (intro conjI impI)
    assume "\<forall>t\<in>set ts. h t = None"
    with cb have "collect_available h ts = []" by blast
    then show "entry = None" by (simp add: entry_def sel)
  next
    assume "\<exists>t\<in>set ts. h t \<noteq> None"
    with cb obtain first rest w v where
      c: "collect_available h ts = first # rest"
      and b: "py_best_from better first rest = (w, v)"
      and r: "w \<in> set ts" "h w = Some v" "find (\<lambda>t. h t = Some v) ts = Some w"
        "\<forall>t\<in>set ts. \<forall>r. h t = Some r \<longrightarrow> \<not> better r v"
      by blast
    have e: "entry = Some (winner_py (w, v))" using c b by (simp add: entry_def sel)
    have tv: "fund_attr src attr w = Some v" "test v" using r(2) hs by auto
    have "(\<lambda>t. h t = Some v) = (\<lambda>t. fund_attr src attr t = Some v)"
      using hs tv(2) by auto
    with r(3) have f: "find (\<lambda>t. fund_attr src attr t = Some v) ts = Some w" by simp
    have "\<forall>t\<in>set ts. \<forall>r. fund_attr src attr t = Some r \<and> test r \<longrightarrow> \<not> better r v"
      using r(4) hs by blast
    with e r(1) tv f
    show "\<exists>w v. entry = Some (winner_py (w, v)) \<and> w \<in> set ts \<and>
           fund_attr src attr w = Some v \<and> test v \<and>
           find (\<lambda>t. fund_attr src attr t = Some v) ts = Some w \<and>
           (\<forall>t\<in>set ts. \<forall>r. fund_attr src attr t = Some r \<and> test r \<longrightarrow> \<not> better r v)"
      by blast
  qed
qed

lemma sub_comparison:
  assumes so: "strict_order better"
    and path: "py_path (compare_fundamentals src ts) [''analysis'', name] =
       (case select_attr attr test (collect_available (get_fundamentals src) ts) of
          [] \<Rightarrow> None
        | first # rest \<Rightarrow> Some (winner_py (py_best_from better first rest)))"
    and attr: "attr = marketCap \<or> attr = peRatio \<or> attr = eps \<or> attr = dividendYield \<or>
         attr = debtToEquity"
    and test: "\<And>x. test (Fin x) = (positive \<longrightarrow> 0 < x)"
    and ord: "\<And>x y. \<not> better (Fin x) (Fin y) \<Longrightarrow> (if highest then x \<le> y else y \<le> x)"
  shows "sub_comparison_ok src ts name attr positive highest"
proof -
  let ?entry = "py_path (compare_fundamentals src ts) [''analysis'', name]"
  let ?h = "\<lambda>t. case fund_attr src attr t of None \<Rightarrow> None
                     | Some v \<Rightarrow> if test v then Some v else None"
  note sb = selected_best [OF so, where ts = ts and src = src and attr = attr and test = test,
      folded path]
  have q: "qualifying src attr positive t x \<longleftrightarrow> ?h t = Some (Fin x)" for t x
    by (auto simp: qualifying_def test split: option.splits)
  have hfin: "?h t \<noteq> None \<Longrightarrow> \<exists>x. ?h t = Some (Fin x)" for t
    using fund_attr_Fin [OF _ attr, of src t] by (auto split: option.splits if_splits)
  show ?thesis
  proof (cases "\<exists>t\<in>set ts. \<exists>x. qualifying src attr positive t x")
    case True
    then have "\<exists>t\<in>set ts. ?h t \<noteq> None" using q by auto
    with sb obtain w v where
      e: "?entry = Some (winner_py (w, v))" and w: "w \<in> set ts"
      and a: "fund_attr src attr w = Some v" "test v"
      and m: "\<forall>t\<in>set ts. \<forall>r. fund_attr src attr t = Some r \<and> test r \<longrightarrow> \<not> better r v"
      by blast
    from fund_attr_Fin [OF a(1) attr] obtain y where y: "v = Fin y" by blast
    have qw: "qualifying src attr positive w y"
      using a y by (simp add: qualifying_def test)
    have all: "\<forall>t\<in>set ts. \<forall>x. qualifying src attr positive t x \<longrightarrow>
            (if highest then x \<le> y else y \<le> x)"
    proof (intro ballI allI impI)
      fix t x assume t: "t \<in> set ts" and "qualifying src attr positive t x"
      then have "fund_attr src attr t = Some (Fin x) \<and> test (Fin x)"
        by (simp add: qualifying_def test)
      with m t have "\<not> better (Fin x) (Fin y)" using y by blast
      then show "if highest then x \<le> y else y \<le> x" by (rule ord)
    qed
    have "\<exists>w y. ?entry = Some (winner_py (w, Fin y)) \<and> w \<in> set ts \<and>
            qualifying src attr positive w y \<and>
            (\<forall>t\<in>set ts. \<forall>x. qualifying src attr positive t x \<longrightarrow>
               (if highest then x \<le> y else y \<le> x))"
      using e w qw y all by blast
    with True show ?thesis
      unfolding sub_comparison_ok_def Let_def by (simp only: if_True)
  next
    case False
    then have "\<forall>t\<in>set ts. ?h t = None" using q hfin by blast
    with sb have "?entry = None" by blast
    with False show ?thesis unfolding sub_comparison_ok_def Let_def by simp
  qed
qed

lemma py_get_all_returns:
  "py_get (float_dict (collect_available h ts)) t =
     (if t \<in> set ts then map_option PFloat (h t) else None)"
  by (simp add: py_get_float_dict map_of_collect_available)

lemma py_get_all_data:
  "py_get (PDict (map (\<lambda>(t, d). (t, g d)) (collect_available h ts))) t =
     (if t \<in> set ts then map_option g (h t) else None)"
  by (simp add: map_of_map map_of_collect_available)

lemma analysis_entries_max:
  assumes "(name, e) \<in> set (analysis_max name' (collect_available h ts))"
  shows "\<exists>w v. e = winner_py (w, v) \<and> w \<in> set ts \<and> h w = Some v"
proof (cases "collect_available h ts")
  case Nil
  with assms show ?thesis by (simp add: analysis_max_def)
next
  case (Cons first rest)
  with assms have e: "e = winner_py (py_best_from fgt first rest)"
    by (simp add: analysis_max_def py_max_from_def)
  obtain w v where b: "py_best_from fgt first rest = (w, v)"
    by (cases "py_best_from fgt first rest") auto
  from best_of_collect [OF strict_order_fgt Cons b] e b show ?thesis by auto
qed

lemma analysis_entries_min:
  assumes "(name, e) \<in> set (analysis_min name' (collect_available h ts))"
  shows "\<exists>w v. e = winner_py (w, v) \<and> w \<in> set ts \<and> h w = Some v"
proof (cases "collect_available h ts")
  case Nil
  with assms show ?thesis by (simp add: analysis_min_def)
next
  case (Cons first rest)
  with assms have e: "e = winner_py (py_best_from flt first rest)"
    by (simp add: analysis_min_def py_min_from_def)
  obtain w v where b: "py_best_from flt first rest = (w, v)"
    by (cases "py_best_from flt first rest") auto
  from best_of_collect [OF strict_order_flt Cons b] e b show ?thesis by auto
qed

lemma fund_entry:
  assumes "\<exists>w v. e = winner_py (w, v) \<and> w \<in> set ts \<and>
     (case fund_attr src attr w of None \<Rightarrow> None
      | Some v \<Rightarrow> if test v then Some v else None) = Some v"
  shows "\<exists>w v. e = winner_py (w, v) \<and> w \<in> set ts \<and> get_fundamentals src w \<noteq> None"
proof -
  from assms obtain w v where e: "e = winner_py (w, v)" "w \<in> set ts"
    and h: "(case fund_attr src attr w of None \<Rightarrow> None
      | Some v \<Rightarrow> if test v then Some v else None) = Some v" by blast
  from h have "get_fundamentals src w \<noteq> None"
    by (auto simp: fund_attr_def split: option.splits)
  with e show ?thesis by blast
qed

lemma compare_fundamentals_ranking:
  assumes "\<exists>t\<in>set ts. get_fundamentals src t \<noteq> None"
  shows "\<exists>m an. compare_fundamentals src ts =
            PDict [(''all_fundamentals'', m), (''analysis'', PDict an)] \<and>
          (\<forall>t. py_get m t =
             (if t \<in> set ts then map_option fundamentals_py (get_fundamentals src t)
              else None)) \<and>
          (\<forall>(name, e)\<in>set an.
             \<exists>w v. e = winner_py (w, v) \<and> w \<in> set ts \<and> get_fundamentals src w \<noteq> None)"
proof -
  let ?data = "collect_available (get_fundamentals src) ts"
  let ?m = "PDict (map (\<lambda>(t, data). (t, fundamentals_py data)) ?data)"
  let ?a1 = "analysis_max ''largest_market_cap'' (select_attr marketCap (\<lambda>v. True) ?data)"
  let ?a2 = "analysis_min ''best_pe_ratio'' (select_attr peRatio (\<lambda>v. fgt v (Fin 0)) ?data)"
  let ?a3 = "analysis_max ''highest_dividend_yield''
               (select_attr dividendYield (\<lambda>v. fgt v (Fin 0)) ?data)"
  let ?a4 = "analysis_min ''lowest_debt_to_equity''
               (select_attr debtToEquity (\<lambda>v. fgt v (Fin 0)) ?data)"
  have r: "compare_fundamentals src ts =
      PDict [(''all_fundamentals'', ?m), (''analysis'', PDict (?a1 @ ?a2 @ ?a3 @ ?a4))]"
    using compare_fundamentals_data [OF assms] .
  have m: "\<forall>t. py_get ?m t =
      (if t \<in> set ts then map_option fundamentals_py (get_fundamentals src t) else None)"
    by (simp only: py_get_all_data) simp
  have ent: "\<exists>w v. e = winner_py (w, v) \<and> w \<in> set ts \<and> get_fundamentals src w \<noteq> None"
    if "(name, e) \<in> set (?a1 @ ?a2 @ ?a3 @ ?a4)" for name e
  proof -
    from that consider "(name, e) \<in> set ?a1" | "(name, e) \<in> set ?a2"
      | "(name, e) \<in> set ?a3" | "(name, e) \<in> set ?a4" by auto
    then show ?thesis
    proof cases
      case 1
      from analysis_entries_max [OF 1 [unfolded select_attr_fund]]
      show ?thesis by (rule fund_entry)
    next
      case 2
      from analysis_entries_min [OF 2 [unfolded select_attr_fund]]
      show ?thesis by (rule fund_entry)
    next
      case 3
      from analysis_entries_max [OF 3 [unfolded select_attr_fund]]
      show ?thesis by (rule fund_entry)
    next
      case 4
      from analysis_entries_min [OF 4 [unfolded select_attr_fund]]
      show ?thesis by (rule fund_entry)
    qed
  qed
  from r m ent show ?thesis by blast
qed

lemma example_fund_attr:
  "fund_attr example_source marketCap ''AAA'' = Some (Fin 100)"
  "fund_attr example_source marketCap ''BBB'' = Some (Fin 50)"
  "fund_attr example_source peRatio ''AAA'' = Some (Fin (- 5))"
  "fund_attr example_source peRatio ''BBB'' = Some (Fin 10)"
  by (simp_all add: fund_attr_def example_get_fundamentals)

lemma example_compare_fundamentals:
  "compare_fundamentals example_source [''AAA'', ''BBB''] =
     PDict [(''all_fundamentals'',
              PDict [(''AAA'', fundamentals_py
                        \<lparr> longName = Some ''Alpha'', marketCap = Some (Fin 100),
                          peRatio = Some (Fin (- 5)), eps = None,
                          dividendYield = None, debtToEquity = Some (Fin (12345 / 1000)) \<rparr>),
                     (''BBB'', fundamentals_py
                        \<lparr> longName = Some ''Beta'', marketCap = Some (Fin 50),
                          peRatio = Some (Fin 10), eps = Some (Fin 2),
                          dividendYield = Some (Fin (1 / 2)),
                          debtToEquity = Some (Fin (12345 / 1000)) \<rparr>)]),
            (''analysis'',
              PDict [(''largest_market_cap'', winner_py (''AAA'', Fin 100)),
                     (''best_pe_ratio'', winner_py (''BBB'', Fin 10)),
                     (''highest_dividend_yield'', winner_py (''BBB'', Fin (1 / 2))),
                     (''lowest_debt_to_equity'', winner_py (''AAA'', Fin (12345 / 1000)))])]"
  by (simp add: compare_fundamentals_def collect_available_def example_get_fundamentals
      select_attr_def List.map_filter_simps analysis_max_def analysis_min_def
      py_max_from_def py_min_from_def fgt_def)

lemma example_compare_fundamentals_one:
  "compare_fundamentals example_source [''AAA''] =
     PDict [(''all_fundamentals'',
              PDict [(''AAA'', fundamentals_py
                        \<lparr> longName = Some ''Alpha'', marketCap = Some (Fin 100),
                          peRatio = Some (Fin (- 5)), eps = None,
                          dividendYield = None, debtToEquity = Some (Fin (12345 / 1000)) \<rparr>)]),
            (''analysis'',
              PDict [(''largest_market_cap'', winner_py (''AAA'', Fin 100)),
                     (''lowest_debt_to_equity'', winner_py (''AAA'', Fin (12345 / 1000)))])]"
  by (simp add: compare_fundamentals_def collect_available_def example_get_fundamentals
      select_attr_def List.map_filter_simps analysis_max_def analysis_min_def
      py_max_from_def py_min_from_def fgt_def)

text \<open>
  C6. Each of the four sub-comparisons of \<^verbatim>\<open>compare_fundamentals\<close> depends on its
  own attribute only: the largest market capitalization among the tickers whose market
  capitalization is known, the lowest strictly positive price/earnings ratio, the highest
  strictly positive dividend yield, the lowest strictly positive debt-to-equity. A ticker
  whose value for one attribute is missing or not positive is left out of that
  sub-comparison alone, and a sub-comparison without a qualifying ticker is absent from
  the result.
\<close>

theorem compare_fundamentals_sub_comparisons:
  "sub_comparison_ok src tickers ''largest_market_cap'' marketCap False True \<and>
   sub_comparison_ok src tickers ''best_pe_ratio'' peRatio True False \<and>
   sub_comparison_ok src tickers ''highest_dividend_yield'' dividendYield True True \<and>
   sub_comparison_ok src tickers ''lowest_debt_to_equity'' debtToEquity True False"
proof (intro conjI)
  show "sub_comparison_ok src tickers ''largest_market_cap'' marketCap False True"
    by (rule sub_comparison [OF strict_order_fgt analysis_path(1)])
       (simp_all add: fgt_def)
  show "sub_comparison_ok src tickers ''best_pe_ratio'' peRatio True False"
    by (rule sub_comparison [OF strict_order_flt analysis_path(2)])
       (simp_all add: fgt_def)
  show "sub_comparison_ok src tickers ''highest_dividend_yield'' dividendYield True True"
    by (rule sub_comparison [OF strict_order_fgt analysis_path(3)])
       (simp_all add: fgt_def)
  show "sub_comparison_ok src tickers ''lowest_debt_to_equity'' debtToEquity True False"
    by (rule sub_comparison [OF strict_order_flt analysis_path(4)])
       (simp_all add: fgt_def)
qed

theorem compare_fundamentals_sub_comparisons_witness:
  "qualifying example_source marketCap False ''AAA'' 100 \<and>
   qualifying example_source peRatio True ''BBB'' 10 \<and>
   \<not> qualifying example_source peRatio True ''AAA'' (- 5) \<and>
   py_path (compare_fundamentals example_source [''AAA'', ''BBB''])
     [''analysis'', ''largest_market_cap''] = Some (winner_py (''AAA'', Fin 100)) \<and>
   py_path (compare_fundamentals example_source [''AAA'', ''BBB''])
     [''analysis'', ''best_pe_ratio''] = Some (winner_py (''BBB'', Fin 10)) \<and>
   py_path (compare_fundamentals example_source [''AAA''])
     [''analysis'', ''best_pe_ratio''] = None \<and>
   sub_comparison_ok example_source [''AAA'', ''BBB''] ''largest_market_cap'' marketCap False True \<and>
   sub_comparison_ok example_source [''AAA'', ''BBB''] ''best_pe_ratio'' peRatio True False \<and>
   sub_comparison_ok example_source [''AAA''] ''best_pe_ratio'' peRatio True False"
  using compare_fundamentals_sub_comparisons [of example_source "[''AAA'', ''BBB'']"]
    compare_fundamentals_sub_comparisons [of example_source "[''AAA'']"]
  by (simp add: qualifying_def example_fund_attr example_compare_fundamentals
      example_compare_fundamentals_one)

lemma example_get_fundamentals_none:
  "get_fundamentals example_source ''CCC'' = None"
  by (simp add: get_fundamentals_def get_fundamentals_try_def except_None_def
      example_source_def example_info_def)

lemma example_compare_nodata:
  "compare_returns example_source [''ZZZ'', ''CCC''] p =
     PDict [(''error'', PStr ''No data available for tickers'')]"
  "compare_volatility example_source [''ZZZ'', ''CCC''] p =
     PDict [(''error'', PStr ''No volatility data available for tickers'')]"
  "compare_max_min example_source [''ZZZ'', ''CCC''] p =
     PDict [(''error'', PStr ''No max/min data available for tickers'')]"
  "compare_fundamentals example_source [''ZZZ'', ''CCC''] =
     PDict [(''error'', PStr ''No fundamentals data available for tickers'')]"
  by (simp_all add: compare_returns_def compare_volatility_def compare_max_min_def
      compare_fundamentals_def collect_available_def example_get_return
      example_get_volatility example_get_max_min example_get_fundamentals
      example_get_fundamentals_none)

lemma example_compare_returns:
  "compare_returns example_source [''ZZZ'', ''AAA'', ''BBB''] p =
     PDict [(''best_ticker'', PStr ''AAA''), (''best_return'', PFloat (Fin 21)),
            (''all_returns'', PDict [(''AAA'', PFloat (Fin 21)), (''BBB'', PFloat (Fin 0))])]"
  by (simp add: compare_returns_def collect_available_def example_get_return
      py_max_from_def fgt_def float_dict_def)

lemma example_compare_volatility:
  "compare_volatility example_source [''ZZZ'', ''AAA'', ''BBB''] p =
     PDict [(''least_volatile'', PStr ''AAA''), (''least_volatility'', PFloat (Fin 0)),
            (''most_volatile'', PStr ''AAA''), (''most_volatility'', PFloat (Fin 0)),
            (''all_volatilities'', PDict [(''AAA'', PFloat (Fin 0)), (''BBB'', PFloat NaN)])]"
  by (simp add: compare_volatility_def collect_available_def example_get_volatility
      py_max_from_def py_min_from_def fgt_def float_dict_def)

lemma example_compare_max_min:
  "compare_max_min example_source [''ZZZ'', ''AAA'', ''BBB''] p =
     PDict [(''highest_max'', winner_py (''AAA'', Fin 121)),
            (''lowest_min'', winner_py (''BBB'', Fin 50)),
            (''all_data'',
               PDict [(''AAA'', max_min_py \<lparr> mm_max = Fin 121, mm_min = Fin 100 \<rparr>),
                      (''BBB'', max_min_py \<lparr> mm_max = Fin 50, mm_min = Fin 50 \<rparr>)])]"
  by (simp add: compare_max_min_def collect_available_def example_get_max_min
      py_max_from_def py_min_from_def fgt_def)

text \<open>
  C5. A comparator is a total function of the ticker list: it has no failing branch.
  When every listed ticker's metric is unavailable it returns the \<^verbatim>\<open>error\<close> dict,
  which has no winner. Otherwise it returns a ranking whose winners are listed tickers
  with an available metric, and whose map of all values holds exactly the listed tickers
  whose metric is available, each with its value: the others are left out.
\<close>

theorem comparators_partial_data:
  "((\<forall>t\<in>set ts. get_return src t p = None) \<longrightarrow>
      compare_returns src ts p = PDict [(''error'', PStr ''No data available for tickers'')]) \<and>
   ((\<exists>t\<in>set ts. get_return src t p \<noteq> None) \<longrightarrow>
      (\<exists>w v m. compare_returns src ts p =
           PDict [(''best_ticker'', PStr w), (''best_return'', PFloat v),
                  (''all_returns'', m)] \<and>
         w \<in> set ts \<and> get_return src w p = Some v \<and>
         (\<forall>t. py_get m t =
            (if t \<in> set ts then map_option PFloat (get_return src t p) else None)))) \<and>
   ((\<forall>t\<in>set ts. get_volatility src t p = None) \<longrightarrow>
      compare_volatility src ts p =
        PDict [(''error'', PStr ''No volatility data available for tickers'')]) \<and>
   ((\<exists>t\<in>set ts. get_volatility src t p \<noteq> None) \<longrightarrow>
      (\<exists>lw lv mw mv m. compare_volatility src ts p =
           PDict [(''least_volatile'', PStr lw), (''least_volatility'', PFloat lv),
                  (''most_volatile'', PStr mw), (''most_volatility'', PFloat mv),
                  (''all_volatilities'', m)] \<and>
         lw \<in> set ts \<and> get_volatility src lw p = Some lv \<and>
         mw \<in> set ts \<and> get_volatility src mw p = Some mv \<and>
         (\<forall>t. py_get m t =
            (if t \<in> set ts then map_option PFloat (get_volatility src t p) else None)))) \<and>
   ((\<forall>t\<in>set ts. get_max_min src t p = None) \<longrightarrow>
      compare_max_min src ts p =
        PDict [(''error'', PStr ''No max/min data available for tickers'')]) \<and>
   ((\<exists>t\<in>set ts. get_max_min src t p \<noteq> None) \<longrightarrow>
      (\<exists>hw hv lw lv m. compare_max_min src ts p =
           PDict [(''highest_max'', winner_py (hw, hv)),
                  (''lowest_min'', winner_py (lw, lv)), (''all_data'', m)] \<and>
         hw \<in> set ts \<and> map_option mm_max (get_max_min src hw p) = Some hv \<and>
         lw \<in> set ts \<and> map_option mm_min (get_max_min src lw p) = Some lv \<and>
         (\<forall>t. py_get m t =
            (if t \<in> set ts then map_option max_min_py (get_max_min src t p) else None)))) \<and>
   ((\<forall>t\<in>set ts. get_fundamentals src t = None) \<longrightarrow>
      compare_fundamentals src ts =
        PDict [(''error'', PStr ''No fundamentals data available for tickers'')]) \<and>
   ((\<exists>t\<in>set ts. get_fundamentals src t \<noteq> None) \<longrightarrow>
      (\<exists>m an. compare_fundamentals src ts =
           PDict [(''all_fundamentals'', m), (''analysis'', PDict an)] \<and>
         (\<forall>t. py_get m t =
            (if t \<in> set ts then map_option fundamentals_py (get_fundamentals src t)
             else None)) \<and>
         (\<forall>(name, e)\<in>set an.
            \<exists>w v. e = winner_py (w, v) \<and> w \<in> set ts \<and> get_fundamentals src w \<noteq> None)))"
proof (intro conjI impI)
  assume "\<forall>t\<in>set ts. get_return src t p = None"
  then show "compare_returns src ts p =
      PDict [(''error'', PStr ''No data available for tickers'')]"
    by (rule compare_returns_nodata)
next
  assume "\<exists>t\<in>set ts. get_return src t p \<noteq> None"
  from compare_returns_ranking [OF this] obtain w v where
    "compare_returns src ts p =
       PDict [(''best_ticker'', PStr w), (''best_return'', PFloat v),
              (''all_returns'', float_dict (collect_available (\<lambda>t. get_return src t p) ts))]"
    "w \<in> set ts" "get_return src w p = Some v" by blast
  moreover have "\<forall>t. py_get (float_dict (collect_available (\<lambda>t. get_return src t p) ts)) t =
      (if t \<in> set ts then map_option PFloat (get_return src t p) else None)"
    by (simp only: py_get_all_returns) simp
  ultimately show "\<exists>w v m. compare_returns src ts p =
           PDict [(''best_ticker'', PStr w), (''best_return'', PFloat v),
                  (''all_returns'', m)] \<and>
         w \<in> set ts \<and> get_return src w p = Some v \<and>
         (\<forall>t. py_get m t =
            (if t \<in> set ts then map_option PFloat (get_return src t p) else None))"
    by blast
next
  assume "\<forall>t\<in>set ts. get_volatility src t p = None"
  then show "compare_volatility src ts p =
      PDict [(''error'', PStr ''No volatility data available for tickers'')]"
    by (rule compare_volatility_nodata)
next
  assume "\<exists>t\<in>set ts. get_volatility src t p \<noteq> None"
  from compare_volatility_ranking [OF this] obtain lw lv mw mv where
    "compare_volatility src ts p =
       PDict [(''least_volatile'', PStr lw), (''least_volatility'', PFloat lv),
              (''most_volatile'', PStr mw), (''most_volatility'', PFloat mv),
              (''all_volatilities'',
                 float_dict (collect_available (\<lambda>t. get_volatility src t p) ts))]"
    "lw \<in> set ts" "get_volatility src lw p = Some lv"
    "mw \<in> set ts" "get_volatility src mw p = Some mv" by blast
  moreover have
    "\<forall>t. py_get (float_dict (collect_available (\<lambda>t. get_volatility src t p) ts)) t =
      (if t \<in> set ts then map_option PFloat (get_volatility src t p) else None)"
    by (simp only: py_get_all_returns) simp
  ultimately show "\<exists>lw lv mw mv m. compare_volatility src ts p =
           PDict [(''least_volatile'', PStr lw), (''least_volatility'', PFloat lv),
                  (''most_volatile'', PStr mw), (''most_volatility'', PFloat mv),
                  (''all_volatilities'', m)] \<and>
         lw \<in> set ts \<and> get_volatility src lw p = Some lv \<and>
         mw \<in> set ts \<and> get_volatility src mw p = Some mv \<and>
         (\<forall>t. py_get m t =
            (if t \<in> set ts then map_option PFloat (get_volatility src t p) else None))"
    by blast
next
  assume "\<forall>t\<in>set ts. get_max_min src t p = None"
  then show "compare_max_min src ts p =
      PDict [(''error'', PStr ''No max/min data available for tickers'')]"
    by (rule compare_max_min_nodata)
next
  assume "\<exists>t\<in>set ts. get_max_min src t p \<noteq> None"
  from compare_max_min_ranking [OF this] obtain hw hv lw lv where
    "compare_max_min src ts p =
       PDict [(''highest_max'', winner_py (hw, hv)), (''lowest_min'', winner_py (lw, lv)),
              (''all_data'',
                 PDict (map (\<lambda>(t, data). (t, max_min_py data))
                   (collect_available (\<lambda>t. get_max_min src t p) ts)))]"
    "hw \<in> set ts" "map_option mm_max (get_max_min src hw p) = Some hv"
    "lw \<in> set ts" "map_option mm_min (get_max_min src lw p) = Some lv" by blast
  moreover have
    "\<forall>t. py_get (PDict (map (\<lambda>(t, data). (t, max_min_py data))
                   (collect_available (\<lambda>t. get_max_min src t p) ts))) t =
      (if t \<in> set ts then map_option max_min_py (get_max_min src t p) else None)"
    by (simp only: py_get_all_data) simp
  ultimately show "\<exists>hw hv lw lv m. compare_max_min src ts p =
           PDict [(''highest_max'', winner_py (hw, hv)),
                  (''lowest_min'', winner_py (lw, lv)), (''all_data'', m)] \<and>
         hw \<in> set ts \<and> map_option mm_max (get_max_min src hw p) = Some hv \<and>
         lw \<in> set ts \<and> map_option mm_min (get_max_min src lw p) = Some lv \<and>
         (\<forall>t. py_get m t =
            (if t \<in> set ts then map_option max_min_py (get_max_min src t p) else None))"
    by blast
next
  assume "\<forall>t\<in>set ts. get_fundamentals src t = None"
  then show "compare_fundamentals src ts =
      PDict [(''error'', PStr ''No fundamentals data available for tickers'')]"
    by (rule compare_fundamentals_nodata)
next
  assume "\<exists>t\<in>set ts. get_fundamentals src t \<noteq> None"
  then show "\<exists>m an. compare_fundamentals src ts =
           PDict [(''all_fundamentals'', m), (''analysis'', PDict an)] \<and>
         (\<forall>t. py_get m t =
            (if t \<in> set ts then map_option fundamentals_py (get_fundamentals src t)
             else None)) \<and>
         (\<forall>(name, e)\<in>set an.
            \<exists>w v. e = winner_py (w, v) \<and> w \<in> set ts \<and> get_fundamentals src w \<noteq> None)"
    by (rule compare_fundamentals_ranking)
qed

theorem comparators_partial_data_witness:
  "get_return example_source ''ZZZ'' ytd = None \<and>
   get_return example_source ''CCC'' ytd = None \<and>
   compare_returns example_source [''ZZZ'', ''CCC''] ytd =
     PDict [(''error'', PStr ''No data available for tickers'')] \<and>
   compare_volatility example_source [''ZZZ'', ''CCC''] ytd =
     PDict [(''error'', PStr ''No volatility data available for tickers'')] \<and>
   compare_max_min example_source [''ZZZ'', ''CCC''] ytd =
     PDict [(''error'', PStr ''No max/min data available for tickers'')] \<and>
   compare_fundamentals example_source [''ZZZ'', ''CCC''] =
     PDict [(''error'', PStr ''No fundamentals data available for tickers'')] \<and>
   get_return example_source ''AAA'' ytd = Some (Fin 21) \<and>
   compare_returns example_source [''ZZZ'', ''AAA'', ''BBB''] ytd =
     PDict [(''best_ticker'', PStr ''AAA''), (''best_return'', PFloat (Fin 21)),
            (''all_returns'', PDict [(''AAA'', PFloat (Fin 21)), (''BBB'', PFloat (Fin 0))])] \<and>
   get_volatility example_source ''AAA'' ytd = Some (Fin 0) \<and>
   compare_volatility example_source [''ZZZ'', ''AAA'', ''BBB''] ytd =
     PDict [(''least_volatile'', PStr ''AAA''), (''least_volatility'', PFloat (Fin 0)),
            (''most_volatile'', PStr ''AAA''), (''most_volatility'', PFloat (Fin 0)),
            (''all_volatilities'', PDict [(''AAA'', PFloat (Fin 0)), (''BBB'', PFloat NaN)])] \<and>
   get_max_min example_source ''AAA'' ytd = Some \<lparr> mm_max = Fin 121, mm_min = Fin 100 \<rparr> \<and>
   compare_max_min example_source [''ZZZ'', ''AAA'', ''BBB''] ytd =
     PDict [(''highest_max'', winner_py (''AAA'', Fin 121)),
            (''lowest_min'', winner_py (''BBB'', Fin 50)),
            (''all_data'',
               PDict [(''AAA'', max_min_py \<lparr> mm_max = Fin 121, mm_min = Fin 100 \<rparr>),
                      (''BBB'', max_min_py \<lparr> mm_max = Fin 50, mm_min = Fin 50 \<rparr>)])] \<and>
   get_fundamentals example_source ''ZZZ'' = None \<and>
   py_path (compare_fundamentals example_source [''AAA'', ''BBB''])
     [''analysis'', ''best_pe_ratio''] = Some (winner_py (''BBB'', Fin 10))"
  using comparators_partial_data [of "[''ZZZ'', ''CCC'']" example_source ytd]
    comparators_partial_data [of "[''ZZZ'', ''AAA'', ''BBB'']" example_source ytd]
  by (simp add: example_get_return example_get_volatility example_get_max_min
      example_get_fundamentals example_compare_nodata example_compare_returns
      example_compare_volatility example_compare_max_min example_compare_fundamentals)











section \<open>Properties of the request walker\<close>

lemma to_dict_id: "to_dict v = v"
proof (induction v)
  case (PList xs)
  then show ?case by (simp add: map_idI)
next
  case (PDict items)
  have "map (\<lambda>kv. (fst kv, to_dict (snd kv))) items = items"
  proof (rule map_idI)
    fix kv assume "kv \<in> set items"
    moreover have "snd kv \<in> Basic_BNFs.snds kv" by (cases kv) simp
    ultimately have "to_dict (snd kv) = snd kv"
      by (rule PDict.IH)
    then show "(fst kv, to_dict (snd kv)) = kv" by (cases kv) simp
  qed
  then show ?case by simp
qed simp_all

lemma for_items_map:
  "\<forall>(k, v)\<in>set items. body k v = Inr (g k v) \<Longrightarrow>
   for_items body items = Inr (map (\<lambda>(k, v). (k, g k v)) items)"
  by (induction items) auto

lemma for_items_fail:
  "(k, v) \<in> set items \<Longrightarrow> body k v = Inl e \<Longrightarrow> \<exists>e'. for_items body items = Inl e'"
  by (induction items) (auto split: sum.splits)

lemma map_of_map_items:
  "map_of (map (\<lambda>(k, v). (k, g k v)) items) k = map_option (g k) (map_of items k)"
  by (induction items) auto

lemma walk_periods_dict:
  "is_dict periods \<Longrightarrow> walk_periods resolve periods = Inr (fill_periods resolve periods)"
  by (cases periods; cases resolve) (simp_all add: fill_periods_def)

lemma walk_tickers_ok:
  assumes "tickers_ok v"
  shows "\<exists>items. v = PDict items \<and>
    walk_tickers resolver v =
      Inr (PDict (map (\<lambda>(t, periods). (t, fill_periods (resolver t) periods)) items))"
proof -
  from assms obtain items where v: "v = PDict items"
    and all: "list_all (\<lambda>(t, periods). is_dict periods) items"
    by (auto simp: tickers_ok_def split: pyval.splits)
  have "\<forall>(t, periods)\<in>set items.
      walk_periods (resolver t) periods = Inr (fill_periods (resolver t) periods)"
    using all by (auto simp: list_all_iff walk_periods_dict)
  from for_items_map [of items "\<lambda>t periods. walk_periods (resolver t) periods"
      "\<lambda>t periods. fill_periods (resolver t) periods", OF this]
  show ?thesis using v by simp
qed

lemma py_path_fill_periods:
  "py_path periods [p] = Some leaf \<Longrightarrow>
   py_path (fill_periods resolve periods) [p] =
     Some (case resolve of None \<Rightarrow> leaf | Some f \<Rightarrow> f (PStr p))"
  by (cases periods; cases resolve)
     (auto simp: fill_periods_def map_of_map_items split: option.splits)

lemma walk_tickers_fill:
  "tickers_ok v \<Longrightarrow> walk_tickers resolver v = Inr (fill_tickers resolver v)"
  using walk_tickers_ok [of v resolver] by (auto simp: fill_tickers_def)

lemma walk_compare_fill:
  assumes "tickers_ok tc"
  shows "walk_compare src sub tc = Inr (fill_compare src sub tc)"
proof -
  from assms obtain items where tc: "tc = PDict items"
    by (auto simp: tickers_ok_def split: pyval.splits)
  show ?thesis
    using walk_tickers_fill [OF assms, of "\<lambda>t. compare_resolver src sub (map fst items)"] tc
    by (simp add: fill_compare_def)
qed

lemma walk_branch_fill:
  assumes "branch_ok metric v"
  shows "walk_branch src metric v = Inr (fill_branch src metric v)"
proof (cases "metric = ''compare''")
  case True
  with assms obtain subs where v: "v = PDict subs"
    and all: "list_all (\<lambda>(sub_metric, tickers_cmp). tickers_ok tickers_cmp) subs"
    by (auto simp: branch_ok_def split: pyval.splits)
  have "\<forall>(sub, tc)\<in>set subs. walk_compare src sub tc = Inr (fill_compare src sub tc)"
    using all by (auto simp: list_all_iff walk_compare_fill)
  from for_items_map [of subs "walk_compare src" "fill_compare src", OF this]
  show ?thesis using True v by (simp add: fill_branch_def)
next
  case nc: False
  show ?thesis
  proof (cases "metric = ''fundamentals''")
    case True
    with assms nc obtain items where v: "v = PDict items"
      by (cases v) (auto simp: branch_ok_def)
    then show ?thesis using True nc by (simp add: fill_branch_def)
  next
    case False
    with assms nc have ok: "tickers_ok v" by (simp add: branch_ok_def)
    then obtain items where v: "v = PDict items"
      by (auto simp: tickers_ok_def split: pyval.splits)
    show ?thesis
      using walk_tickers_fill [OF ok, of "metric_resolver src metric"] v nc False
      by (simp add: fill_branch_def)
  qed
qed

lemma receive_prompt_fill:
  assumes "request_ok parsed"
  shows "\<exists>branches. parsed = PDict branches \<and>
    receive_prompt src parsed =
      StatusOk (PDict (map (\<lambda>(metric, v). (metric, fill_branch src metric v)) branches))"
proof -
  from assms obtain branches where p: "parsed = PDict branches"
    and all: "list_all (\<lambda>(metric, v). branch_ok metric v) branches"
    by (auto simp: request_ok_def split: pyval.splits)
  have "\<forall>(metric, v)\<in>set branches.
      walk_branch src metric v = Inr (fill_branch src metric v)"
    using all by (auto simp: list_all_iff walk_branch_fill)
  from for_items_map [of branches "walk_branch src" "fill_branch src", OF this]
  show ?thesis using p by simp
qed

lemma py_path_fill_tickers:
  assumes "py_path v [t, p] = Some leaf"
  shows "py_path (fill_tickers resolver v) [t, p] =
    Some (case resolver t of None \<Rightarrow> leaf | Some f \<Rightarrow> f (PStr p))"
proof -
  from assms obtain items periods where v: "v = PDict items"
    and t: "map_of items t = Some periods" and l: "py_path periods [p] = Some leaf"
    by (cases v) (auto split: option.splits)
  from py_path_fill_periods [OF l, of "resolver t"] v t show ?thesis
    by (simp add: fill_tickers_def map_of_map_items)
qed

lemma py_path_receive_prompt:
  assumes "request_ok parsed"
  shows "\<exists>res. receive_prompt src parsed = StatusOk res \<and>
    (\<forall>metric. py_get res metric =
       map_option (fill_branch src metric) (py_get parsed metric))"
  using receive_prompt_fill [OF assms, of src] by (auto simp: map_of_map_items)

lemma compare_resolver_recognized:
  assumes "sub \<in> {''return'', ''volatility'', ''fundamentals'', ''max_min''}"
  shows "compare_resolver src sub ts = Some (\<lambda>period. comparison src sub ts period)"
  using assms by (auto simp: compare_resolver_def comparison_def to_dict_id)

lemma py_path_fill_compare:
  assumes "py_path (PDict tc) [t, p] = Some leaf"
  shows "py_path (fill_compare src sub (PDict tc)) [t, p] =
    Some (case compare_resolver src sub (map fst tc) of
            None \<Rightarrow> leaf | Some f \<Rightarrow> f (PStr p))"
  using py_path_fill_tickers [OF assms, of "\<lambda>t. compare_resolver src sub (map fst tc)"]
  by (simp add: fill_compare_def)

lemma py_path_compare_branch:
  assumes ok: "request_ok parsed"
    and sub: "py_path parsed [''compare'', sub] = Some (PDict tc)"
    and leaf: "py_path (PDict tc) [t, p] = Some leaf"
  shows "\<exists>res. receive_prompt src parsed = StatusOk res \<and>
    py_path res [''compare'', sub, t, p] =
      Some (case compare_resolver src sub (map fst tc) of
              None \<Rightarrow> leaf | Some f \<Rightarrow> f (PStr p))"
proof -
  from py_path_receive_prompt [OF ok, of src] obtain res
    where res: "receive_prompt src parsed = StatusOk res"
      and get: "\<And>metric. py_get res metric =
        map_option (fill_branch src metric) (py_get parsed metric)"
    by blast
  from sub obtain subs where c: "py_get parsed ''compare'' = Some (PDict subs)"
    and s: "map_of subs sub = Some (PDict tc)"
    by (auto split: option.splits pyval.splits elim: py_get.elims)
  have "py_path res [''compare'', sub] = Some (fill_compare src sub (PDict tc))"
    using get [of "''compare''"] c s
    by (simp add: fill_branch_def map_of_map_items)
  then have "py_path res [''compare'', sub, t, p] =
      py_path (fill_compare src sub (PDict tc)) [t, p]"
    by (auto split: option.splits)
  with py_path_fill_compare [OF leaf, of src sub] res show ?thesis by simp
qed

text \<open>
  Claim C7. Take a request in which every level down to the periods is a dict, a
  recognized sub-metric \<open>sub\<close> under \<^verbatim>\<open>compare\<close> and a ticker \<open>t\<close> with a period
  \<open>p\<close> under it. The request is answered with status ok, and the leaf of \<open>t\<close> and
  \<open>p\<close> holds the result of the comparator that \<open>sub\<close> selects, called on all the
  tickers listed under \<open>sub\<close> and on \<open>p\<close>; every other ticker under \<open>sub\<close> that has
  the period \<open>p\<close> holds the same value.
\<close>

theorem compare_same_aggregate:
  assumes "request_ok parsed"
    and "py_path parsed [''compare'', sub] = Some (PDict tc)"
    and "sub \<in> {''return'', ''volatility'', ''fundamentals'', ''max_min''}"
    and "py_path (PDict tc) [t, p] = Some leaf"
  shows "\<exists>res. receive_prompt src parsed = StatusOk res \<and>
    py_path res [''compare'', sub, t, p] =
      Some (comparison src sub (map fst tc) (PStr p)) \<and>
    (\<forall>t'. py_path (PDict tc) [t', p] \<noteq> None \<longrightarrow>
       py_path res [''compare'', sub, t', p] = py_path res [''compare'', sub, t, p])"
proof -
  have r: "compare_resolver src sub (map fst tc) =
      Some (\<lambda>period. comparison src sub (map fst tc) period)"
    using assms(3) by (rule compare_resolver_recognized)
  from py_path_compare_branch [OF assms(1,2,4), of src] obtain res
    where res: "receive_prompt src parsed = StatusOk res"
      and l: "py_path res [''compare'', sub, t, p] =
        Some (comparison src sub (map fst tc) (PStr p))"
    by (auto simp: r)
  have "py_path res [''compare'', sub, t', p] = py_path res [''compare'', sub, t, p]"
    if "py_path (PDict tc) [t', p] \<noteq> None" for t'
  proof -
    from that obtain leaf' where "py_path (PDict tc) [t', p] = Some leaf'" by blast
    from py_path_compare_branch [OF assms(1,2) this, of src] res l show ?thesis
      by (auto simp: r)
  qed
  with res l show ?thesis by blast
qed

theorem compare_same_aggregate_witness:
  "\<exists>res.
     receive_prompt example_source
       (PDict [(''compare'', PDict [(''return'',
          PDict [(''ZZZ'', PDict [(''ytd'', PNone)]),
                 (''AAA'', PDict [(''ytd'', PNone), (''1y'', PNone)]),
                 (''BBB'', PDict [(''ytd'', PNone)])])])]) = StatusOk res \<and>
     py_path res [''compare'', ''return'', ''AAA'', ''ytd''] =
       Some (PDict [(''best_ticker'', PStr ''AAA''), (''best_return'', PFloat (Fin 21)),
                    (''all_returns'',
                     PDict [(''AAA'', PFloat (Fin 21)), (''BBB'', PFloat (Fin 0))])]) \<and>
     py_path res [''compare'', ''return'', ''ZZZ'', ''ytd''] =
       py_path res [''compare'', ''return'', ''AAA'', ''ytd'']"
proof -
  let ?tc = "[(''ZZZ'', PDict [(''ytd'', PNone)]),
              (''AAA'', PDict [(''ytd'', PNone), (''1y'', PNone)]),
              (''BBB'', PDict [(''ytd'', PNone)])]"
  let ?parsed = "PDict [(''compare'', PDict [(''return'', PDict ?tc)])]"
  have ok: "request_ok ?parsed"
    by (simp add: request_ok_def branch_ok_def tickers_ok_def)
  have sub: "py_path ?parsed [''compare'', ''return''] = Some (PDict ?tc)" by simp
  have name: "''return'' \<in> {''return'', ''volatility'', ''fundamentals'', ''max_min''}"
    by simp
  have leaf: "py_path (PDict ?tc) [''AAA'', ''ytd''] = Some PNone" by simp
  have other: "py_path (PDict ?tc) [''ZZZ'', ''ytd''] \<noteq> None" by simp
  have c: "comparison example_source ''return'' (map fst ?tc) (PStr ''ytd'') =
      PDict [(''best_ticker'', PStr ''AAA''), (''best_return'', PFloat (Fin 21)),
             (''all_returns'', PDict [(''AAA'', PFloat (Fin 21)), (''BBB'', PFloat (Fin 0))])]"
    by (simp add: comparison_def example_compare_returns)
  from compare_same_aggregate [OF ok sub name leaf, of example_source] other
  show ?thesis unfolding c by blast
qed

lemma fill_periods_None: "fill_periods None periods = periods"
  by (cases periods) (simp_all add: fill_periods_def)

lemma fill_tickers_None: "fill_tickers (\<lambda>t. None) v = v"
proof (cases v)
  case (PDict items)
  have "map (\<lambda>(t, periods). (t, fill_periods None periods)) items = items"
    by (induction items) (auto simp: fill_periods_None)
  with PDict show ?thesis by (simp add: fill_tickers_def)
qed (simp_all add: fill_tickers_def)

lemma fill_branch_unrecognized:
  assumes "metric \<notin> set [''return'', ''volatility'', ''fundamentals'', ''max_min'', ''compare'']"
  shows "fill_branch src metric v = v"
proof -
  have "metric_resolver src metric = (\<lambda>t. None)"
    using assms by (auto simp: metric_resolver_def)
  with assms show ?thesis by (simp add: fill_branch_def fill_tickers_None)
qed

lemma fill_compare_unrecognized:
  assumes "sub \<notin> set [''return'', ''volatility'', ''fundamentals'', ''max_min'']"
  shows "fill_compare src sub v = v"
proof -
  have "compare_resolver src sub = (\<lambda>ts. None)"
    using assms by (auto simp: compare_resolver_def)
  then show ?thesis by (cases v) (simp_all add: fill_compare_def fill_tickers_None)
qed

lemma py_path_fill_branch_metric:
  assumes "metric \<noteq> ''compare''" and "metric \<noteq> ''fundamentals''"
    and "py_path v [t, p] = Some leaf"
  shows "py_path (fill_branch src metric v) [t, p] =
    Some (case metric_resolver src metric t of None \<Rightarrow> leaf | Some f \<Rightarrow> f (PStr p))"
  using py_path_fill_tickers [OF assms(3), of "metric_resolver src metric"] assms(1,2)
  by (simp add: fill_branch_def)

lemma py_get_fill_branch_fundamentals:
  assumes "py_get v t = Some x"
  shows "py_get (fill_branch src ''fundamentals'' v) t =
    Some (fundamentals_opt_py (get_fundamentals src t))"
proof -
  from assms obtain items where v: "v = PDict items" and t: "map_of items t = Some x"
    by (cases v) auto
  then show ?thesis by (simp add: fill_branch_def map_of_map_items)
qed

lemma py_get_fill_branch_compare:
  assumes "sub \<notin> set [''return'', ''volatility'', ''fundamentals'', ''max_min'']"
  shows "py_get (fill_branch src ''compare'' v) sub = py_get v sub"
proof (cases v)
  case (PDict subs)
  have "map_option (fill_compare src sub) (map_of subs sub) = map_of subs sub"
    by (cases "map_of subs sub") (simp_all add: fill_compare_unrecognized [OF assms])
  with PDict show ?thesis by (simp add: fill_branch_def map_of_map_items)
qed (simp_all add: fill_branch_def)

lemma py_path_result:
  assumes "\<And>metric. py_get res metric =
      map_option (fill_branch src metric) (py_get parsed metric)"
  shows "py_path res (metric # ks) =
    (case py_get parsed metric of
       None \<Rightarrow> None | Some v \<Rightarrow> py_path (fill_branch src metric v) ks)"
  using assms [of metric] by (simp split: option.splits)

lemma receive_prompt_not_dict:
  "\<not> is_dict parsed \<Longrightarrow> receive_prompt src parsed = StatusError AttributeError"
  by (cases parsed) simp_all

lemma walk_branch_not_dict:
  "\<not> is_dict v \<Longrightarrow> walk_branch src metric v = Inl AttributeError"
  by (cases v) simp_all

lemma receive_prompt_branch_not_dict:
  assumes "(metric, v) \<in> set branches" and "\<not> is_dict v"
  shows "\<exists>e. receive_prompt src (PDict branches) = StatusError e"
proof -
  from for_items_fail [where body = "walk_branch src", OF assms(1)
      walk_branch_not_dict [OF assms(2), of src metric]]
  obtain e where "for_items (walk_branch src) branches = Inl e" by blast
  then show ?thesis by simp
qed

lemma metric_resolver_simps:
  "metric_resolver src ''return'' t =
     Some (\<lambda>period. float_opt_py (get_return src t period))"
  "metric_resolver src ''volatility'' t =
     Some (\<lambda>period. float_opt_py (get_volatility src t period))"
  "metric_resolver src ''max_min'' t =
     Some (\<lambda>period. case get_max_min src t period of
                       None \<Rightarrow> PNone | Some d \<Rightarrow> max_min_py d)"
  by (simp_all add: metric_resolver_def)

text \<open>
  Claim C1, as the code has it. A request in which every level down to the periods is a
  dict is answered with status ok, whatever its branch names are. A branch whose name
  is none of \<^verbatim>\<open>return\<close>, \<^verbatim>\<open>volatility\<close>, \<^verbatim>\<open>fundamentals\<close>, \<^verbatim>\<open>max_min\<close>,
  \<^verbatim>\<open>compare\<close> is returned as it came, and so is an unrecognized sub-metric under
  \<^verbatim>\<open>compare\<close>: no branch of the \<^verbatim>\<open>if\<close>/\<^verbatim>\<open>elif\<close> chains matches and the
  chains have no \<^verbatim>\<open>else\<close>. Every leaf under \<^verbatim>\<open>return\<close>, \<^verbatim>\<open>volatility\<close> and
  \<^verbatim>\<open>max_min\<close> holds the value of its resolver for its own ticker and period, and
  every ticker under \<^verbatim>\<open>fundamentals\<close> the value of \<^verbatim>\<open>get_fundamentals\<close>: a
  ticker whose fetch fails holds null and the other tickers hold their values. The
  request ends with an error response when the request is not a dict, or when the value
  of one of its branches is not a dict.
\<close>

theorem unrecognized_branch_kept:
  "(request_ok parsed \<longrightarrow>
      (\<exists>res. receive_prompt src parsed = StatusOk res \<and>
         (\<forall>metric. metric \<notin> set [''return'', ''volatility'', ''fundamentals'',
                                  ''max_min'', ''compare''] \<longrightarrow>
            py_get res metric = py_get parsed metric) \<and>
         (\<forall>sub. sub \<notin> set [''return'', ''volatility'', ''fundamentals'', ''max_min''] \<longrightarrow>
            py_path res [''compare'', sub] = py_path parsed [''compare'', sub]) \<and>
         (\<forall>t p. py_path parsed [''return'', t, p] \<noteq> None \<longrightarrow>
            py_path res [''return'', t, p] =
              Some (float_opt_py (get_return src t (PStr p)))) \<and>
         (\<forall>t p. py_path parsed [''volatility'', t, p] \<noteq> None \<longrightarrow>
            py_path res [''volatility'', t, p] =
              Some (float_opt_py (get_volatility src t (PStr p)))) \<and>
         (\<forall>t p. py_path parsed [''max_min'', t, p] \<noteq> None \<longrightarrow>
            py_path res [''max_min'', t, p] =
              Some (case get_max_min src t (PStr p) of
                      None \<Rightarrow> PNone | Some d \<Rightarrow> max_min_py d)) \<and>
         (\<forall>t. py_path parsed [''fundamentals'', t] \<noteq> None \<longrightarrow>
            py_path res [''fundamentals'', t] =
              Some (fundamentals_opt_py (get_fundamentals src t))))) \<and>
   (\<not> is_dict parsed \<longrightarrow> receive_prompt src parsed = StatusError AttributeError) \<and>
   (\<forall>branches metric v.
      parsed = PDict branches \<and> (metric, v) \<in> set branches \<and> \<not> is_dict v \<longrightarrow>
      (\<exists>e. receive_prompt src parsed = StatusError e))"
proof (intro conjI impI allI)
  assume ok: "request_ok parsed"
  from py_path_receive_prompt [OF ok, of src] obtain res
    where res: "receive_prompt src parsed = StatusOk res"
      and get: "\<And>metric. py_get res metric =
        map_option (fill_branch src metric) (py_get parsed metric)"
    by blast
  note path = py_path_result [of res src parsed, OF get]
  have unrec: "py_get res metric = py_get parsed metric"
    if "metric \<notin> set [''return'', ''volatility'', ''fundamentals'', ''max_min'', ''compare'']"
    for metric
    using get [of metric] fill_branch_unrecognized [OF that, of src]
    by (cases "py_get parsed metric") simp_all
  have sub: "py_path res [''compare'', sub] = py_path parsed [''compare'', sub]"
    if "sub \<notin> set [''return'', ''volatility'', ''fundamentals'', ''max_min'']" for sub
  proof (cases "py_get parsed ''compare''")
    case None
    with get [of "''compare''"] show ?thesis by simp
  next
    case (Some v)
    with get [of "''compare''"] py_get_fill_branch_compare [OF that, of src v]
    show ?thesis by simp
  qed
  have leaf: "py_path res [metric, t, p] =
      Some (case metric_resolver src metric t of None \<Rightarrow> l | Some f \<Rightarrow> f (PStr p))"
    if "metric \<noteq> ''compare''" "metric \<noteq> ''fundamentals''"
      "py_path parsed [metric, t, p] = Some l" for metric t p l
  proof -
    from that(3) obtain v where v: "py_get parsed metric = Some v"
      and l: "py_path v [t, p] = Some l"
      by (auto split: option.splits)
    from py_path_fill_branch_metric [OF that(1,2) l, of src] v show ?thesis
      by (simp only: path option.case)
  qed
  have ret: "py_path res [''return'', t, p] =
      Some (float_opt_py (get_return src t (PStr p)))"
    if "py_path parsed [''return'', t, p] \<noteq> None" for t p
  proof -
    from that obtain l where "py_path parsed [''return'', t, p] = Some l" by blast
    from leaf [OF _ _ this] show ?thesis by (simp add: metric_resolver_simps)
  qed
  have vol: "py_path res [''volatility'', t, p] =
      Some (float_opt_py (get_volatility src t (PStr p)))"
    if "py_path parsed [''volatility'', t, p] \<noteq> None" for t p
  proof -
    from that obtain l where "py_path parsed [''volatility'', t, p] = Some l" by blast
    from leaf [OF _ _ this] show ?thesis by (simp add: metric_resolver_simps)
  qed
  have mm: "py_path res [''max_min'', t, p] =
      Some (case get_max_min src t (PStr p) of None \<Rightarrow> PNone | Some d \<Rightarrow> max_min_py d)"
    if "py_path parsed [''max_min'', t, p] \<noteq> None" for t p
  proof -
    from that obtain l where "py_path parsed [''max_min'', t, p] = Some l" by blast
    from leaf [OF _ _ this] show ?thesis by (simp add: metric_resolver_simps)
  qed
  have fund: "py_path res [''fundamentals'', t] =
      Some (fundamentals_opt_py (get_fundamentals src t))"
    if "py_path parsed [''fundamentals'', t] \<noteq> None" for t
  proof -
    from that obtain v x where v: "py_get parsed ''fundamentals'' = Some v"
      and x: "py_get v t = Some x"
      by (auto split: option.splits)
    from py_get_fill_branch_fundamentals [OF x, of src] v get [of "''fundamentals''"]
    show ?thesis by simp
  qed
  from res unrec sub ret vol mm fund
  show "\<exists>res. receive_prompt src parsed = StatusOk res \<and>
         (\<forall>metric. metric \<notin> set [''return'', ''volatility'', ''fundamentals'',
                                  ''max_min'', ''compare''] \<longrightarrow>
            py_get res metric = py_get parsed metric) \<and>
         (\<forall>sub. sub \<notin> set [''return'', ''volatility'', ''fundamentals'', ''max_min''] \<longrightarrow>
            py_path res [''compare'', sub] = py_path parsed [''compare'', sub]) \<and>
         (\<forall>t p. py_path parsed [''return'', t, p] \<noteq> None \<longrightarrow>
            py_path res [''return'', t, p] =
              Some (float_opt_py (get_return src t (PStr p)))) \<and>
         (\<forall>t p. py_path parsed [''volatility'', t, p] \<noteq> None \<longrightarrow>
            py_path res [''volatility'', t, p] =
              Some (float_opt_py (get_volatility src t (PStr p)))) \<and>
         (\<forall>t p. py_path parsed [''max_min'', t, p] \<noteq> None \<longrightarrow>
            py_path res [''max_min'', t, p] =
              Some (case get_max_min src t (PStr p) of
                      None \<Rightarrow> PNone | Some d \<Rightarrow> max_min_py d)) \<and>
         (\<forall>t. py_path parsed [''fundamentals'', t] \<noteq> None \<longrightarrow>
            py_path res [''fundamentals'', t] =
              Some (fundamentals_opt_py (get_fundamentals src t)))"
    by blast
next
  assume "\<not> is_dict parsed"
  then show "receive_prompt src parsed = StatusError AttributeError"
    by (rule receive_prompt_not_dict)
next
  fix branches metric v
  assume "parsed = PDict branches \<and> (metric, v) \<in> set branches \<and> \<not> is_dict v"
  then show "\<exists>e. receive_prompt src parsed = StatusError e"
    using receive_prompt_branch_not_dict [of metric v branches src] by blast
qed

theorem unrecognized_branch_kept_witness:
  "(\<exists>res.
      receive_prompt example_source
        (PDict [(''sharpe'', PDict [(''AAA'', PDict [(''ytd'', PNone)])]),
                (''return'', PDict [(''ZZZ'', PDict [(''ytd'', PNone)]),
                                    (''AAA'', PDict [(''ytd'', PNone)])]),
                (''volatility'', PDict [(''AAA'', PDict [(''ytd'', PNone)])]),
                (''max_min'', PDict [(''ZZZ'', PDict [(''ytd'', PNone)]),
                                     (''BBB'', PDict [(''ytd'', PNone)])]),
                (''fundamentals'', PDict [(''ZZZ'', PNone)]),
                (''compare'', PDict [(''beta'', PDict [(''AAA'', PDict [(''ytd'', PNone)])])])])
        = StatusOk res \<and>
      py_get res ''sharpe'' = Some (PDict [(''AAA'', PDict [(''ytd'', PNone)])]) \<and>
      py_path res [''compare'', ''beta''] =
        Some (PDict [(''AAA'', PDict [(''ytd'', PNone)])]) \<and>
      py_path res [''return'', ''ZZZ'', ''ytd''] = Some PNone \<and>
      py_path res [''return'', ''AAA'', ''ytd''] = Some (PFloat (Fin 21)) \<and>
      py_path res [''volatility'', ''AAA'', ''ytd''] = Some (PFloat (Fin 0)) \<and>
      py_path res [''max_min'', ''ZZZ'', ''ytd''] = Some PNone \<and>
      py_path res [''max_min'', ''BBB'', ''ytd''] =
        Some (PDict [(''max'', PFloat (Fin 50)), (''min'', PFloat (Fin 50))]) \<and>
      py_path res [''fundamentals'', ''ZZZ''] = Some PNone) \<and>
   receive_prompt example_source (PList []) = StatusError AttributeError \<and>
   (\<exists>e. receive_prompt example_source (PDict [(''return'', PNone)]) = StatusError e)"
proof (intro conjI)
  let ?parsed = "PDict [(''sharpe'', PDict [(''AAA'', PDict [(''ytd'', PNone)])]),
                (''return'', PDict [(''ZZZ'', PDict [(''ytd'', PNone)]),
                                    (''AAA'', PDict [(''ytd'', PNone)])]),
                (''volatility'', PDict [(''AAA'', PDict [(''ytd'', PNone)])]),
                (''max_min'', PDict [(''ZZZ'', PDict [(''ytd'', PNone)]),
                                     (''BBB'', PDict [(''ytd'', PNone)])]),
                (''fundamentals'', PDict [(''ZZZ'', PNone)]),
                (''compare'', PDict [(''beta'', PDict [(''AAA'', PDict [(''ytd'', PNone)])])])]"
  have ok: "request_ok ?parsed"
    by (simp add: request_ok_def branch_ok_def tickers_ok_def)
  have name: "''sharpe'' \<notin> set [''return'', ''volatility'', ''fundamentals'',
      ''max_min'', ''compare'']"
    by simp
  have sub: "''beta'' \<notin> set [''return'', ''volatility'', ''fundamentals'', ''max_min'']"
    by simp
  have zzz: "py_path ?parsed [''return'', ''ZZZ'', ''ytd''] \<noteq> None" by simp
  have aaa: "py_path ?parsed [''return'', ''AAA'', ''ytd''] \<noteq> None" by simp
  have vol: "py_path ?parsed [''volatility'', ''AAA'', ''ytd''] \<noteq> None" by simp
  have mmz: "py_path ?parsed [''max_min'', ''ZZZ'', ''ytd''] \<noteq> None" by simp
  have mmb: "py_path ?parsed [''max_min'', ''BBB'', ''ytd''] \<noteq> None" by simp
  have fund: "py_path ?parsed [''fundamentals'', ''ZZZ''] \<noteq> None" by simp
  have r: "get_return example_source ''ZZZ'' (PStr ''ytd'') = None"
    using example_unavailable(1) by (simp only: get_return_None_iff)
  have f: "get_fundamentals example_source ''ZZZ'' = None"
    by (simp add: get_fundamentals_None_iff example_info_simps)
  note ex = unrecognized_branch_kept [of ?parsed example_source, THEN conjunct1,
      THEN mp, OF ok]
  then obtain res
    where res: "receive_prompt example_source ?parsed = StatusOk res"
      and rest: "(\<forall>metric. metric \<notin> set [''return'', ''volatility'', ''fundamentals'',
                                  ''max_min'', ''compare''] \<longrightarrow>
            py_get res metric = py_get ?parsed metric) \<and>
         (\<forall>sub. sub \<notin> set [''return'', ''volatility'', ''fundamentals'', ''max_min''] \<longrightarrow>
            py_path res [''compare'', sub] = py_path ?parsed [''compare'', sub]) \<and>
         (\<forall>t p. py_path ?parsed [''return'', t, p] \<noteq> None \<longrightarrow>
            py_path res [''return'', t, p] =
              Some (float_opt_py (get_return example_source t (PStr p)))) \<and>
         (\<forall>t p. py_path ?parsed [''volatility'', t, p] \<noteq> None \<longrightarrow>
            py_path res [''volatility'', t, p] =
              Some (float_opt_py (get_volatility example_source t (PStr p)))) \<and>
         (\<forall>t p. py_path ?parsed [''max_min'', t, p] \<noteq> None \<longrightarrow>
            py_path res [''max_min'', t, p] =
              Some (case get_max_min example_source t (PStr p) of
                      None \<Rightarrow> PNone | Some d \<Rightarrow> max_min_py d)) \<and>
         (\<forall>t. py_path ?parsed [''fundamentals'', t] \<noteq> None \<longrightarrow>
            py_path res [''fundamentals'', t] =
              Some (fundamentals_opt_py (get_fundamentals example_source t)))"
    by (elim exE conjE) (rule that, assumption, intro conjI, assumption+)
  note a = rest [THEN conjunct1, rule_format]
  note s = rest [THEN conjunct2, THEN conjunct1, rule_format]
  note b = rest [THEN conjunct2, THEN conjunct2, THEN conjunct1, rule_format]
  note v = rest [THEN conjunct2, THEN conjunct2, THEN conjunct2, THEN conjunct1,
      rule_format]
  note m = rest [THEN conjunct2, THEN conjunct2, THEN conjunct2, THEN conjunct2,
      THEN conjunct1, rule_format]
  note c = rest [THEN conjunct2, THEN conjunct2, THEN conjunct2, THEN conjunct2,
      THEN conjunct2, rule_format]
  have "py_get res ''sharpe'' = Some (PDict [(''AAA'', PDict [(''ytd'', PNone)])])"
    using a [OF name] by simp
  moreover have "py_path res [''compare'', ''beta''] =
      Some (PDict [(''AAA'', PDict [(''ytd'', PNone)])])"
    using s [OF sub] by simp
  moreover have "py_path res [''return'', ''ZZZ'', ''ytd''] = Some PNone"
    using b [OF zzz] by (simp add: r float_opt_py_def)
  moreover have "py_path res [''return'', ''AAA'', ''ytd''] = Some (PFloat (Fin 21))"
    using b [OF aaa] by (simp add: example_get_return float_opt_py_def)
  moreover have "py_path res [''volatility'', ''AAA'', ''ytd''] = Some (PFloat (Fin 0))"
    using v [OF vol] by (simp add: example_get_volatility float_opt_py_def)
  moreover have "py_path res [''max_min'', ''ZZZ'', ''ytd''] = Some PNone"
    using m [OF mmz] by (simp add: example_get_max_min)
  moreover have "py_path res [''max_min'', ''BBB'', ''ytd''] =
      Some (PDict [(''max'', PFloat (Fin 50)), (''min'', PFloat (Fin 50))])"
    using m [OF mmb] by (simp add: example_get_max_min max_min_py_def)
  moreover have "py_path res [''fundamentals'', ''ZZZ''] = Some PNone"
    using c [OF fund] by (simp add: f fundamentals_opt_py_def)
  ultimately show "\<exists>res.
      receive_prompt example_source ?parsed = StatusOk res \<and>
      py_get res ''sharpe'' = Some (PDict [(''AAA'', PDict [(''ytd'', PNone)])]) \<and>
      py_path res [''compare'', ''beta''] =
        Some (PDict [(''AAA'', PDict [(''ytd'', PNone)])]) \<and>
      py_path res [''return'', ''ZZZ'', ''ytd''] = Some PNone \<and>
      py_path res [''return'', ''AAA'', ''ytd''] = Some (PFloat (Fin 21)) \<and>
      py_path res [''volatility'', ''AAA'', ''ytd''] = Some (PFloat (Fin 0)) \<and>
      py_path res [''max_min'', ''ZZZ'', ''ytd''] = Some PNone \<and>
      py_path res [''max_min'', ''BBB'', ''ytd''] =
        Some (PDict [(''max'', PFloat (Fin 50)), (''min'', PFloat (Fin 50))]) \<and>
      py_path res [''fundamentals'', ''ZZZ''] = Some PNone"
    using res by blast
next
  show "receive_prompt example_source (PList []) = StatusError AttributeError"
    using unrecognized_branch_kept [of "PList []" example_source, THEN conjunct2,
        THEN conjunct1]
    by (simp only: is_dict.simps not_False_eq_True simp_thms)
next
  show "\<exists>e. receive_prompt example_source (PDict [(''return'', PNone)]) = StatusError e"
    using unrecognized_branch_kept [of "PDict [(''return'', PNone)]" example_source,
        THEN conjunct2, THEN conjunct2, THEN spec, THEN spec, THEN spec,
        of "[(''return'', PNone)]" "''return''" PNone]
    by (simp del: receive_prompt.simps)
qed

text \<open>
  C1 as stated fails on a branch with an unrecognized name: the request with the single
  branch \<^verbatim>\<open>sharpe\<close> is answered with status ok, and the result is the request
  unchanged.
\<close>

theorem unrecognized_branch_counterexample:
  "receive_prompt example_source
     (PDict [(''sharpe'', PDict [(''AAA'', PDict [(''ytd'', PNone)])])]) =
   StatusOk (PDict [(''sharpe'', PDict [(''AAA'', PDict [(''ytd'', PNone)])])])"
  by (simp add: metric_resolver_def)

end
